theory Spec2Isabelle
  imports Main "HOL-Library.Word"
begin

section \<open>The workspace build orchestrator (package wsbuilder)\<close>

text \<open>
  A shallow embedding of the Go package \<^verbatim>\<open>wsbuilder\<close>: the \<^verbatim>\<open>Builder\<close> with its
  lazily filled cache, the checks and getters of one transaction attempt
  (\<^verbatim>\<open>buildTx\<close>) and the retry loop of \<^verbatim>\<open>Build\<close>.

  The pointer receiver \<^verbatim>\<open>b *Builder\<close> becomes explicit state passing: every method takes
  the Builder and returns it updated. The \<^verbatim>\<open>database.Store\<close> interface becomes a record
  of operations over a store state \<open>'s\<close>; reads depend on the state, writes return the
  new one. A Go \<^verbatim>\<open>error\<close> result is a value: \<open>None\<close> or \<open>Inr\<close> when it is \<^verbatim>\<open>nil\<close>.
\<close>

subsection \<open>Data\<close>

type_synonym uuid = nat
type_synonym bytes = "8 word list"
type_synonym time = nat
type_synonym Context = nat
type_synonym tags = "(string \<times> string) list"

definition uuid_Nil :: uuid where
  "uuid_Nil = 0"

text \<open>\<^verbatim>\<open>database.WorkspaceTransition\<close> is a string type with three named values; any other
  string is representable and reaches the \<^verbatim>\<open>default\<close> branch of \<^verbatim>\<open>authorize\<close>.\<close>

datatype WorkspaceTransition =
    WorkspaceTransitionStart
  | WorkspaceTransitionStop
  | WorkspaceTransitionDelete
  | WorkspaceTransitionOther string

datatype Action = ActionUpdate | ActionDelete

record Workspace =
  ws_ID :: uuid
  ws_OwnerID :: uuid
  ws_OrganizationID :: uuid
  ws_TemplateID :: uuid

record Template =
  tpl_ID :: uuid
  tpl_OrganizationID :: uuid
  tpl_Provisioner :: string
  tpl_ActiveVersionID :: uuid

record NullUUID =
  UUID :: uuid
  Valid :: bool

record TemplateVersion =
  tv_ID :: uuid
  tv_TemplateID :: NullUUID
  tv_Name :: string
  tv_JobID :: uuid

datatype ProvisionerJobType =
    ProvisionerJobTypeTemplateVersionImport
  | ProvisionerJobTypeWorkspaceBuild

record NullRawMessage =
  RawMessage :: bytes
  RawValid :: bool

record ProvisionerJob =
  job_ID :: uuid
  job_CreatedAt :: time
  job_UpdatedAt :: time
  job_StartedAt :: "time option"
  job_CanceledAt :: "time option"
  job_CompletedAt :: "time option"
  job_Error_String :: string
  job_InitiatorID :: uuid
  job_OrganizationID :: uuid
  job_Provisioner :: string
  job_Type :: ProvisionerJobType
  job_StorageMethod :: string
  job_FileID :: uuid
  job_Input :: bytes
  job_Tags :: tags
  job_TraceMetadata :: NullRawMessage

record InsertProvisionerJobParams =
  ipj_ID :: uuid
  ipj_CreatedAt :: time
  ipj_UpdatedAt :: time
  ipj_InitiatorID :: uuid
  ipj_OrganizationID :: uuid
  ipj_Provisioner :: string
  ipj_Type :: ProvisionerJobType
  ipj_StorageMethod :: string
  ipj_FileID :: uuid
  ipj_Input :: bytes
  ipj_Tags :: tags
  ipj_TraceMetadata :: NullRawMessage

text \<open>\<^verbatim>\<open>BuildNumber\<close> is an \<^verbatim>\<open>int32\<close>: a 32-bit word, so that \<open>+ 1\<close> wraps as in Go.\<close>

record WorkspaceBuild =
  wb_ID :: uuid
  wb_CreatedAt :: time
  wb_UpdatedAt :: time
  wb_WorkspaceID :: uuid
  wb_TemplateVersionID :: uuid
  wb_BuildNumber :: "32 word"
  wb_ProvisionerState :: bytes
  wb_InitiatorID :: uuid
  wb_Transition :: WorkspaceTransition
  wb_JobID :: uuid
  wb_Reason :: string

record InsertWorkspaceBuildParams =
  iwb_ID :: uuid
  iwb_CreatedAt :: time
  iwb_UpdatedAt :: time
  iwb_WorkspaceID :: uuid
  iwb_TemplateVersionID :: uuid
  iwb_BuildNumber :: "32 word"
  iwb_ProvisionerState :: bytes
  iwb_InitiatorID :: uuid
  iwb_Transition :: WorkspaceTransition
  iwb_JobID :: uuid
  iwb_Reason :: string

datatype ParameterScope = ParameterScopeWorkspace

record ParameterValue =
  pv_ID :: uuid
  pv_Name :: string
  pv_Scope :: ParameterScope
  pv_ScopeID :: uuid
  pv_SourceScheme :: string
  pv_SourceValue :: string
  pv_DestinationScheme :: string

record ParameterValuesParams =
  Scopes :: "ParameterScope list"
  ScopeIds :: "uuid list"

record InsertParameterValueParams =
  ipv_ID :: uuid
  ipv_Name :: string
  ipv_CreatedAt :: time
  ipv_UpdatedAt :: time
  ipv_Scope :: ParameterScope
  ipv_ScopeID :: uuid
  ipv_SourceScheme :: string
  ipv_SourceValue :: string
  ipv_DestinationScheme :: string

text \<open>\<^verbatim>\<open>codersdk.CreateParameterRequest\<close>, a legacy parameter override.\<close>

record CreateParameterRequest =
  cpr_Name :: string
  cpr_SourceValue :: string
  cpr_SourceScheme :: string
  cpr_DestinationScheme :: string

text \<open>\<^verbatim>\<open>codersdk.WorkspaceBuildParameter\<close>, a rich parameter override.\<close>

record BuildParameter =
  bp_Name :: string
  bp_Value :: string

text \<open>\<^verbatim>\<open>database.WorkspaceBuildParameter\<close>, a rich parameter of an earlier build.\<close>

record WorkspaceBuildParameter =
  wbp_WorkspaceBuildID :: uuid
  wbp_Name :: string
  wbp_Value :: string

record TemplateVersionParameter =
  tvp_TemplateVersionID :: uuid
  tvp_Name :: string
  tvp_Schema :: string

text \<open>\<^verbatim>\<open>codersdk.TemplateVersionParameter\<close>, what \<^verbatim>\<open>conversion.TemplateVersionParameter\<close>
  returns; only the resolver reads it.\<close>

record SDKTemplateVersionParameter =
  stvp_Name :: string
  stvp_Schema :: string

record InsertWorkspaceBuildParametersParams =
  iwbp_WorkspaceBuildID :: uuid
  iwbp_Name :: "string list"
  iwbp_Value :: "string list"

text \<open>\<^verbatim>\<open>provisionerdserver.WorkspaceProvisionJob\<close>, the payload of the job.\<close>

record WorkspaceProvisionJob =
  wpj_WorkspaceBuildID :: uuid
  wpj_LogLevel :: string

text \<open>The \<^verbatim>\<open>rbac.Objecter\<close> values that \<^verbatim>\<open>authorize\<close> hands to the authorization function:
  the workspace, the template, and \<^verbatim>\<open>template.RBACObject()\<close>.\<close>

datatype Objecter =
    ObjWorkspace Workspace
  | ObjTemplate Template
  | ObjTemplateRBACObject Template

subsection \<open>Errors\<close>

text \<open>
  Errors that collaborators return: \<^verbatim>\<open>sql.ErrNoRows\<close>, a \<^verbatim>\<open>*pq.Error\<close> with its code,
  any other error, and an error that wraps another one (it has \<^verbatim>\<open>Unwrap\<close>).
\<close>

datatype ext_error =
    ErrNoRows
  | PqError string
  | ErrOther string
  | ErrWrap string ext_error

text \<open>A message is kept as the source writes it: a literal, the format and arguments of
  a \<^verbatim>\<open>fmt.Sprintf\<close>, or the text \<^verbatim>\<open>err.Error()\<close> of a collaborator's error.\<close>

datatype message =
    Str string
  | Sprintf string "string list"
  | ErrorText ext_error

text \<open>
  The errors of this package: a collaborator's error passed on, \<^verbatim>\<open>xerrors.New\<close>,
  \<^verbatim>\<open>BuildError{Status, Message, Wrapped}\<close>, and \<^verbatim>\<open>xerrors.Errorf\<close> with a \<^verbatim>\<open>%w\<close> verb,
  whose operand may be \<^verbatim>\<open>nil\<close>.
\<close>

datatype error =
    External ext_error
  | New string
  | BuildError nat message error
  | Errorf string "error option"

definition StatusBadRequest :: nat where "StatusBadRequest = 400"
definition StatusForbidden :: nat where "StatusForbidden = 403"
definition StatusNotFound :: nat where "StatusNotFound = 404"
definition StatusNotAcceptable :: nat where "StatusNotAcceptable = 406"
definition StatusConflict :: nat where "StatusConflict = 409"
definition StatusInternalServerError :: nat where "StatusInternalServerError = 500"

text \<open>\<^verbatim>\<open>xerrors.As(err, &pqe)\<close> with \<^verbatim>\<open>pqe *pq.Error\<close>: the code of the first \<^verbatim>\<open>*pq.Error\<close>
  on the \<^verbatim>\<open>Unwrap\<close> chain. \<^verbatim>\<open>BuildError.Unwrap\<close> returns \<^verbatim>\<open>Wrapped\<close>.\<close>

fun ext_As_pq :: "ext_error \<Rightarrow> string option" where
  "ext_As_pq (PqError c) = Some c"
| "ext_As_pq (ErrWrap m e) = ext_As_pq e"
| "ext_As_pq ErrNoRows = None"
| "ext_As_pq (ErrOther m) = None"

fun As_pq :: "error \<Rightarrow> string option" where
  "As_pq (External e) = ext_As_pq e"
| "As_pq (BuildError st m w) = As_pq w"
| "As_pq (Errorf m (Some w)) = As_pq w"
| "As_pq (Errorf m None) = None"
| "As_pq (New m) = None"

text \<open>\<^verbatim>\<open>xerrors.Is(err, sql.ErrNoRows)\<close> on a collaborator's error.\<close>

fun Is_ErrNoRows :: "ext_error \<Rightarrow> bool" where
  "Is_ErrNoRows ErrNoRows = True"
| "Is_ErrNoRows (ErrWrap m e) = Is_ErrNoRows e"
| "Is_ErrNoRows (PqError c) = False"
| "Is_ErrNoRows (ErrOther m) = False"

subsection \<open>Provisioner job status\<close>

text \<open>Modelled from the spec: the type \<^verbatim>\<open>codersdk.ProvisionerJobStatus\<close> is declared outside
  the sources; section 4.4 of the specification lists its values as pending, running,
  succeeded, failed and canceled.\<close>

datatype ProvisionerJobStatus =
    ProvisionerJobPending
  | ProvisionerJobRunning
  | ProvisionerJobSucceeded
  | ProvisionerJobFailed
  | ProvisionerJobCanceled

text \<open>Modelled from the spec: the method \<^verbatim>\<open>ProvisionerJobStatus.Active\<close> is declared outside
  the sources; the specification defines active as pending or running.\<close>

fun Active :: "ProvisionerJobStatus \<Rightarrow> bool" where
  "Active ProvisionerJobPending = True"
| "Active ProvisionerJobRunning = True"
| "Active ProvisionerJobSucceeded = False"
| "Active ProvisionerJobFailed = False"
| "Active ProvisionerJobCanceled = False"

text \<open>Modelled from the spec: the text of a status, which \<^verbatim>\<open>%s\<close> prints.\<close>

fun status_String :: "ProvisionerJobStatus \<Rightarrow> string" where
  "status_String ProvisionerJobPending = ''pending''"
| "status_String ProvisionerJobRunning = ''running''"
| "status_String ProvisionerJobSucceeded = ''succeeded''"
| "status_String ProvisionerJobFailed = ''failed''"
| "status_String ProvisionerJobCanceled = ''canceled''"

subsection \<open>Collaborators\<close>

text \<open>
  The functions of other packages that the Builder calls and that are not part of the
  sources are parameters. \<open>uuid_New\<close> and \<open>database_Now\<close> give the result of the
  \<open>n\<close>-th call to \<^verbatim>\<open>uuid.New()\<close> or \<^verbatim>\<open>database.Now()\<close>; the count of calls is threaded
  through the functions that make them. \<open>ValidateResolve\<close> stands for
  \<^verbatim>\<open>codersdk.ParameterResolver{Rich, Legacy}.ValidateResolve\<close> on the converted lists.
\<close>

record Env =
  ConvertProvisionerJobStatus :: "ProvisionerJob \<Rightarrow> ProvisionerJobStatus"
  MutateTags :: "uuid \<Rightarrow> tags \<Rightarrow> tags"
  conversion_TemplateVersionParameter ::
    "TemplateVersionParameter \<Rightarrow> ext_error + SDKTemplateVersionParameter"
  ValidateResolve ::
    "WorkspaceBuildParameter list \<Rightarrow> ParameterValue list \<Rightarrow> SDKTemplateVersionParameter
      \<Rightarrow> BuildParameter option \<Rightarrow> ext_error + string"
  Marshal_WorkspaceProvisionJob :: "WorkspaceProvisionJob \<Rightarrow> ext_error + bytes"
  Marshal_MetadataFromContext :: "Context \<Rightarrow> ext_error + bytes"
  ResourceNotFoundResponse_Message :: string
  uuid_New :: "nat \<Rightarrow> uuid"
  database_Now :: "nat \<Rightarrow> time"

text \<open>
  The \<^verbatim>\<open>database.Store\<close> interface, as far as the Builder uses it. A read that returns a
  slice returns it together with its error, since the Builder tolerates
  \<^verbatim>\<open>sql.ErrNoRows\<close> there and uses the slice. \<open>RollbackTx S s s'\<close> is the store after a
  transaction that started in \<open>s\<close> and reached \<open>s'\<close> is discarded.
\<close>

record 's Store =
  GetTemplateByID :: "'s \<Rightarrow> uuid \<Rightarrow> ext_error + Template"
  GetTemplateVersionByID :: "'s \<Rightarrow> uuid \<Rightarrow> ext_error + TemplateVersion"
  GetProvisionerJobByID :: "'s \<Rightarrow> uuid \<Rightarrow> ext_error + ProvisionerJob"
  GetLatestWorkspaceBuildByWorkspaceID :: "'s \<Rightarrow> uuid \<Rightarrow> ext_error + WorkspaceBuild"
  GetWorkspaceBuildParameters ::
    "'s \<Rightarrow> uuid \<Rightarrow> WorkspaceBuildParameter list \<times> ext_error option"
  GetTemplateVersionParameters ::
    "'s \<Rightarrow> uuid \<Rightarrow> TemplateVersionParameter list \<times> ext_error option"
  ParameterValues :: "'s \<Rightarrow> ParameterValuesParams \<Rightarrow> ParameterValue list \<times> ext_error option"
  DeleteParameterValueByID :: "'s \<Rightarrow> uuid \<Rightarrow> ext_error option \<times> 's"
  InsertParameterValue ::
    "'s \<Rightarrow> InsertParameterValueParams \<Rightarrow> (ext_error + ParameterValue) \<times> 's"
  InsertProvisionerJob ::
    "'s \<Rightarrow> InsertProvisionerJobParams \<Rightarrow> (ext_error + ProvisionerJob) \<times> 's"
  InsertWorkspaceBuild ::
    "'s \<Rightarrow> InsertWorkspaceBuildParams \<Rightarrow> (ext_error + WorkspaceBuild) \<times> 's"
  InsertWorkspaceBuildParameters ::
    "'s \<Rightarrow> InsertWorkspaceBuildParametersParams \<Rightarrow> ext_error option \<times> 's"
  RollbackTx :: "'s \<Rightarrow> 's \<Rightarrow> 's"

subsection \<open>The Builder and its options\<close>

record versionTarget =
  active :: bool
  specific :: "uuid option"

record stateTarget =
  orphan :: bool
  explicit :: "bytes option"

record Builder =
  workspace :: Workspace
  transition :: WorkspaceTransition
  version :: versionTarget
  state :: stateTarget
  logLevel :: string
  legacyParameterValues :: "CreateParameterRequest list"
  richParameterValues :: "BuildParameter list"
  initiator :: uuid
  reason :: string
  ctx :: Context
  template :: "Template option"
  templateVersion :: "TemplateVersion option"
  templateVersionJob :: "ProvisionerJob option"
  templateVersionParameters :: "TemplateVersionParameter list option"
  lastBuild :: "WorkspaceBuild option"
  lastBuildParameters :: "WorkspaceBuildParameter list option"
  lastParameterValues :: "ParameterValue list option"
  lastBuildJob :: "ProvisionerJob option"

definition BuildReasonInitiator :: string where
  "BuildReasonInitiator = ''initiator''"

text \<open>\<^verbatim>\<open>New\<close>: every field but the workspace and the transition has Go's zero value.\<close>

definition New_Builder :: "Workspace \<Rightarrow> WorkspaceTransition \<Rightarrow> Builder" where
  "New_Builder w t =
     \<lparr> workspace = w, transition = t,
       version = \<lparr> active = False, specific = None \<rparr>,
       state = \<lparr> orphan = False, explicit = None \<rparr>,
       logLevel = [], legacyParameterValues = [], richParameterValues = [],
       initiator = uuid_Nil, reason = [], ctx = 0,
       template = None, templateVersion = None, templateVersionJob = None,
       templateVersionParameters = None, lastBuild = None, lastBuildParameters = None,
       lastParameterValues = None, lastBuildJob = None \<rparr>"

definition VersionID :: "uuid \<Rightarrow> Builder \<Rightarrow> Builder" where
  "VersionID v b = b\<lparr> version := \<lparr> active = False, specific = Some v \<rparr> \<rparr>"

definition ActiveVersion :: "Builder \<Rightarrow> Builder" where
  "ActiveVersion b = b\<lparr> version := \<lparr> active = True, specific = None \<rparr> \<rparr>"

definition State :: "bytes \<Rightarrow> Builder \<Rightarrow> Builder" where
  "State st b = b\<lparr> state := \<lparr> orphan = False, explicit = Some st \<rparr> \<rparr>"

definition Orphan :: "Builder \<Rightarrow> Builder" where
  "Orphan b = b\<lparr> state := \<lparr> orphan = True, explicit = None \<rparr> \<rparr>"

definition LogLevel :: "string \<Rightarrow> Builder \<Rightarrow> Builder" where
  "LogLevel l b = b\<lparr> logLevel := l \<rparr>"

definition Initiator :: "uuid \<Rightarrow> Builder \<Rightarrow> Builder" where
  "Initiator u b = b\<lparr> initiator := u \<rparr>"

definition Reason :: "string \<Rightarrow> Builder \<Rightarrow> Builder" where
  "Reason r b = b\<lparr> reason := r \<rparr>"

definition LegacyParameterValues :: "CreateParameterRequest list \<Rightarrow> Builder \<Rightarrow> Builder" where
  "LegacyParameterValues p b = b\<lparr> legacyParameterValues := p \<rparr>"

definition RichParameterValues :: "BuildParameter list \<Rightarrow> Builder \<Rightarrow> Builder" where
  "RichParameterValues p b = b\<lparr> richParameterValues := p \<rparr>"

definition SetLastWorkspaceBuildInTx :: "WorkspaceBuild option \<Rightarrow> Builder \<Rightarrow> Builder" where
  "SetLastWorkspaceBuildInTx build b = b\<lparr> lastBuild := build \<rparr>"

definition SetLastWorkspaceBuildJobInTx :: "ProvisionerJob option \<Rightarrow> Builder \<Rightarrow> Builder" where
  "SetLastWorkspaceBuildJobInTx job b = b\<lparr> lastBuildJob := job \<rparr>"

subsection \<open>The cached getters\<close>

text \<open>Each getter returns its result and the Builder with the cache as the call leaves
  it. The store state is an argument only: the getters read.\<close>

definition getTemplate :: "'s Store \<Rightarrow> 's \<Rightarrow> Builder \<Rightarrow> (ext_error + Template) \<times> Builder" where
  "getTemplate S s b =
     (case template b of
        Some t \<Rightarrow> (Inr t, b)
      | None \<Rightarrow>
          (case GetTemplateByID S s (ws_TemplateID (workspace b)) of
             Inl err \<Rightarrow> (Inl err, b)
           | Inr t \<Rightarrow> (Inr t, b\<lparr> template := Some t \<rparr>)))"

definition getLastBuild ::
  "'s Store \<Rightarrow> 's \<Rightarrow> Builder \<Rightarrow> (ext_error + WorkspaceBuild) \<times> Builder" where
  "getLastBuild S s b =
     (case lastBuild b of
        Some bld \<Rightarrow> (Inr bld, b)
      | None \<Rightarrow>
          (case GetLatestWorkspaceBuildByWorkspaceID S s (ws_ID (workspace b)) of
             Inl err \<Rightarrow> (Inl err, b)
           | Inr bld \<Rightarrow> (Inr bld, b\<lparr> lastBuild := Some bld \<rparr>)))"

definition getTemplateVersionID ::
  "'s Store \<Rightarrow> 's \<Rightarrow> Builder \<Rightarrow> (ext_error + uuid) \<times> Builder" where
  "getTemplateVersionID S s b =
     (case specific (version b) of
        Some v \<Rightarrow> (Inr v, b)
      | None \<Rightarrow>
          if active (version b) then
            (case getTemplate S s b of
               (Inl err, b1) \<Rightarrow> (Inl err, b1)
             | (Inr t, b1) \<Rightarrow> (Inr (tpl_ActiveVersionID t), b1))
          else
            (case getLastBuild S s b of
               (Inl err, b1) \<Rightarrow> (Inl err, b1)
             | (Inr bld, b1) \<Rightarrow> (Inr (wb_TemplateVersionID bld), b1)))"

definition getTemplateVersion ::
  "'s Store \<Rightarrow> 's \<Rightarrow> Builder \<Rightarrow> (ext_error + TemplateVersion) \<times> Builder" where
  "getTemplateVersion S s b =
     (case templateVersion b of
        Some v \<Rightarrow> (Inr v, b)
      | None \<Rightarrow>
          (case getTemplateVersionID S s b of
             (Inl err, b1) \<Rightarrow> (Inl err, b1)
           | (Inr vid, b1) \<Rightarrow>
               (case GetTemplateVersionByID S s vid of
                  Inl err \<Rightarrow> (Inl err, b1)
                | Inr v \<Rightarrow> (Inr v, b1\<lparr> templateVersion := Some v \<rparr>))))"

definition getTemplateVersionJob ::
  "'s Store \<Rightarrow> 's \<Rightarrow> Builder \<Rightarrow> (ext_error + ProvisionerJob) \<times> Builder" where
  "getTemplateVersionJob S s b =
     (case templateVersionJob b of
        Some j \<Rightarrow> (Inr j, b)
      | None \<Rightarrow>
          (case getTemplateVersion S s b of
             (Inl err, b1) \<Rightarrow> (Inl err, b1)
           | (Inr v, b1) \<Rightarrow>
               (case GetProvisionerJobByID S s (tv_JobID v) of
                  Inl err \<Rightarrow> (Inl err, b1)
                | Inr j \<Rightarrow> (Inr j, b1\<lparr> templateVersionJob := Some j \<rparr>))))"

definition getBuildNumber ::
  "'s Store \<Rightarrow> 's \<Rightarrow> Builder \<Rightarrow> (ext_error + 32 word) \<times> Builder" where
  "getBuildNumber S s b =
     (case getLastBuild S s b of
        (Inl err, b1) \<Rightarrow> (Inl err, b1)
      | (Inr bld, b1) \<Rightarrow> (Inr (wb_BuildNumber bld + 1), b1))"

text \<open>\<^verbatim>\<open>getState\<close>: the \<^verbatim>\<open>nil\<close> slice of the orphan branch is the empty list.\<close>

definition getState :: "'s Store \<Rightarrow> 's \<Rightarrow> Builder \<Rightarrow> (ext_error + bytes) \<times> Builder" where
  "getState S s b =
     (if orphan (state b) then (Inr [], b)
      else
        (case explicit (state b) of
           Some st \<Rightarrow> (Inr st, b)
         | None \<Rightarrow>
             (case getLastBuild S s b of
                (Inl err, b1) \<Rightarrow> (Inl err, b1)
              | (Inr bld, b1) \<Rightarrow> (Inr (wb_ProvisionerState bld), b1))))"

text \<open>\<^verbatim>\<open>err != nil && !xerrors.Is(err, sql.ErrNoRows)\<close>\<close>

definition hard_error :: "ext_error option \<Rightarrow> ext_error option" where
  "hard_error r =
     (case r of
        None \<Rightarrow> None
      | Some err \<Rightarrow> if Is_ErrNoRows err then None else Some err)"

text \<open>\<^verbatim>\<open>getLastBuildParameters\<close> reads its cache field and never fills it.\<close>

definition getLastBuildParameters ::
  "'s Store \<Rightarrow> 's \<Rightarrow> Builder \<Rightarrow> (ext_error + WorkspaceBuildParameter list) \<times> Builder" where
  "getLastBuildParameters S s b =
     (case lastBuildParameters b of
        Some ps \<Rightarrow> (Inr ps, b)
      | None \<Rightarrow>
          (case getLastBuild S s b of
             (Inl err, b1) \<Rightarrow> (Inl err, b1)
           | (Inr bld, b1) \<Rightarrow>
               (case GetWorkspaceBuildParameters S s (wb_ID bld) of
                  (values, r) \<Rightarrow>
                    (case hard_error r of
                       Some err \<Rightarrow> (Inl err, b1)
                     | None \<Rightarrow> (Inr values, b1)))))"

definition getTemplateVersionParameters ::
  "'s Store \<Rightarrow> 's \<Rightarrow> Builder \<Rightarrow> (ext_error + TemplateVersionParameter list) \<times> Builder" where
  "getTemplateVersionParameters S s b =
     (case templateVersionParameters b of
        Some ps \<Rightarrow> (Inr ps, b)
      | None \<Rightarrow>
          (case getTemplateVersionID S s b of
             (Inl err, b1) \<Rightarrow> (Inl err, b1)
           | (Inr tvID, b1) \<Rightarrow>
               (case GetTemplateVersionParameters S s tvID of
                  (tvp, r) \<Rightarrow>
                    (case hard_error r of
                       Some err \<Rightarrow> (Inl err, b1)
                     | None \<Rightarrow> (Inr tvp, b1\<lparr> templateVersionParameters := Some tvp \<rparr>)))))"

definition getLastParameterValues ::
  "'s Store \<Rightarrow> 's \<Rightarrow> Builder \<Rightarrow> (ext_error + ParameterValue list) \<times> Builder" where
  "getLastParameterValues S s b =
     (case lastParameterValues b of
        Some pv \<Rightarrow> (Inr pv, b)
      | None \<Rightarrow>
          (case ParameterValues S s
                  \<lparr> Scopes = [ParameterScopeWorkspace], ScopeIds = [ws_ID (workspace b)] \<rparr> of
             (pv, r) \<Rightarrow>
               (case hard_error r of
                  Some err \<Rightarrow> (Inl err, b)
                | None \<Rightarrow> (Inr pv, b\<lparr> lastParameterValues := Some pv \<rparr>))))"

definition getLastBuildJob ::
  "'s Store \<Rightarrow> 's \<Rightarrow> Builder \<Rightarrow> (ext_error + ProvisionerJob) \<times> Builder" where
  "getLastBuildJob S s b =
     (case lastBuildJob b of
        Some j \<Rightarrow> (Inr j, b)
      | None \<Rightarrow>
          (case getLastBuild S s b of
             (Inl err, b1) \<Rightarrow> (Inl err, b1)
           | (Inr bld, b1) \<Rightarrow>
               (case GetProvisionerJobByID S s (wb_JobID bld) of
                  Inl err \<Rightarrow> (Inl err, b1)
                | Inr job \<Rightarrow> (Inr job, b1\<lparr> lastBuildJob := Some job \<rparr>))))"

fun findNewBuildParameterValue :: "BuildParameter list \<Rightarrow> string \<Rightarrow> BuildParameter option" where
  "findNewBuildParameterValue [] name = None"
| "findNewBuildParameterValue (v # vs) name =
     (if bp_Name v = name then Some v else findNewBuildParameterValue vs name)"

text \<open>The loop of \<^verbatim>\<open>getParameters\<close> over the template version's parameters, with the
  names and values appended so far.\<close>

fun resolveParameters ::
  "Env \<Rightarrow> Builder \<Rightarrow> WorkspaceBuildParameter list \<Rightarrow> ParameterValue list
    \<Rightarrow> TemplateVersionParameter list \<Rightarrow> string list \<Rightarrow> string list
    \<Rightarrow> error + (string list \<times> string list)" where
  "resolveParameters E b rich legacy [] names values = Inr (names, values)"
| "resolveParameters E b rich legacy (p # ps) names values =
     (case conversion_TemplateVersionParameter E p of
        Inl err \<Rightarrow>
          Inl (BuildError StatusInternalServerError
                 (Str ''failed to convert template version parameter'') (External err))
      | Inr tvp \<Rightarrow>
          (case ValidateResolve E rich legacy tvp
                  (findNewBuildParameterValue (richParameterValues b) (tvp_Name p)) of
             Inl err \<Rightarrow> Inl (BuildError StatusBadRequest (ErrorText err) (External err))
           | Inr v \<Rightarrow>
               resolveParameters E b rich legacy ps (names @ [tvp_Name p]) (values @ [v])))"

definition getParameters ::
  "Env \<Rightarrow> 's Store \<Rightarrow> 's \<Rightarrow> Builder \<Rightarrow> (error + (string list \<times> string list)) \<times> Builder" where
  "getParameters E S s b =
     (case getTemplateVersionParameters S s b of
        (Inl err, b1) \<Rightarrow>
          (Inl (BuildError StatusInternalServerError
                  (Str ''failed to fetch template version parameters'') (External err)), b1)
      | (Inr tvps, b1) \<Rightarrow>
          (case getLastBuildParameters S s b1 of
             (Inl err, b2) \<Rightarrow>
               (Inl (BuildError StatusInternalServerError
                       (Str ''failed to fetch last build parameters'') (External err)), b2)
           | (Inr lbps, b2) \<Rightarrow>
               (case getLastParameterValues S s b2 of
                  (Inl err, b3) \<Rightarrow>
                    (Inl (BuildError StatusInternalServerError
                            (Str ''failed to fetch last parameter values'') (External err)), b3)
                | (Inr lpvs, b3) \<Rightarrow>
                    (resolveParameters E b3 lbps lpvs tvps [] [], b3))))"

subsection \<open>Authorization and the three checks\<close>

text \<open>\<^verbatim>\<open>authorize\<close>. The wrapped \<^verbatim>\<open>xerrors.New("")\<close> is \<open>New []\<close>.\<close>

definition authorize ::
  "'s Store \<Rightarrow> 's \<Rightarrow> Env \<Rightarrow> (Action \<Rightarrow> Objecter \<Rightarrow> bool) \<Rightarrow> Builder
    \<Rightarrow> error option \<times> Builder" where
  "authorize S s E authFunc b =
     (case (case transition b of
              WorkspaceTransitionDelete \<Rightarrow> Inr ActionDelete
            | WorkspaceTransitionStart \<Rightarrow> Inr ActionUpdate
            | WorkspaceTransitionStop \<Rightarrow> Inr ActionUpdate
            | WorkspaceTransitionOther t \<Rightarrow>
                Inl (BuildError StatusBadRequest
                       (Sprintf ''Transition %q not supported.'' [t]) (New []))) of
        Inl err \<Rightarrow> (Some err, b)
      | Inr action \<Rightarrow>
          if \<not> authFunc action (ObjWorkspace (workspace b)) then
            (Some (BuildError StatusNotFound (Str (ResourceNotFoundResponse_Message E))
                     (New [])), b)
          else
            (case getTemplate S s b of
               (Inl err, b1) \<Rightarrow>
                 (Some (BuildError StatusInternalServerError
                          (Str ''failed to fetch template'') (External err)), b1)
             | (Inr t, b1) \<Rightarrow>
                 if (explicit (state b1) \<noteq> None \<or> orphan (state b1))
                    \<and> \<not> authFunc ActionUpdate (ObjTemplateRBACObject t) then
                   (Some (BuildError StatusForbidden
                            (Str ''Only template managers may provide custom state'')
                            (New [])), b1)
                 else if logLevel b1 \<noteq> [] \<and> \<not> authFunc ActionUpdate (ObjTemplate t) then
                   (Some (BuildError StatusBadRequest
                            (Str ''Workspace builds with a custom log level are restricted to template authors only.'')
                            (New [])), b1)
                 else (None, b1)))"

text \<open>\<^verbatim>\<open>checkTemplateVersionMatchesTemplate\<close>. The wrapped error is an \<^verbatim>\<open>xerrors.Errorf\<close>
  without \<^verbatim>\<open>%w\<close>, kept as \<open>New\<close> of its format.\<close>

definition checkTemplateVersionMatchesTemplate ::
  "'s Store \<Rightarrow> 's \<Rightarrow> Builder \<Rightarrow> error option \<times> Builder" where
  "checkTemplateVersionMatchesTemplate S s b =
     (case getTemplate S s b of
        (Inl err, b1) \<Rightarrow>
          (Some (BuildError StatusInternalServerError
                   (Str ''failed to fetch template'') (External err)), b1)
      | (Inr t, b1) \<Rightarrow>
          (case getTemplateVersion S s b1 of
             (Inl err, b2) \<Rightarrow>
               (Some (BuildError StatusInternalServerError
                        (Str ''failed to fetch template version'') (External err)), b2)
           | (Inr tv, b2) \<Rightarrow>
               if \<not> Valid (tv_TemplateID tv) \<or> UUID (tv_TemplateID tv) \<noteq> tpl_ID t then
                 (Some (BuildError StatusBadRequest
                          (Str ''template version doesn't match template'')
                          (New ''templateVersion.TemplateID = %s, template.ID = %s'')),
                  b2)
               else (None, b2)))"

definition checkTemplateJobStatus ::
  "'s Store \<Rightarrow> 's \<Rightarrow> Env \<Rightarrow> Builder \<Rightarrow> error option \<times> Builder" where
  "checkTemplateJobStatus S s E b =
     (case getTemplateVersion S s b of
        (Inl err, b1) \<Rightarrow>
          (Some (BuildError StatusInternalServerError
                   (Str ''failed to fetch template version'') (External err)), b1)
      | (Inr tv, b1) \<Rightarrow>
          (case getTemplateVersionJob S s b1 of
             (Inl err, b2) \<Rightarrow>
               (Some (BuildError StatusInternalServerError
                        (Str ''failed to fetch template version job'') (External err)), b2)
           | (Inr j, b2) \<Rightarrow>
               (case ConvertProvisionerJobStatus E j of
                  ProvisionerJobPending \<Rightarrow>
                    (Some (BuildError StatusNotAcceptable
                       (Sprintf ''The provided template version is %s. Wait for it to complete importing!''
                          [status_String ProvisionerJobPending])
                       (New [])), b2)
                | ProvisionerJobRunning \<Rightarrow>
                    (Some (BuildError StatusNotAcceptable
                       (Sprintf ''The provided template version is %s. Wait for it to complete importing!''
                          [status_String ProvisionerJobRunning])
                       (New [])), b2)
                | ProvisionerJobFailed \<Rightarrow>
                    (Some (BuildError StatusBadRequest
                       (Sprintf ''The provided template version %q has failed to import: %q. You cannot build workspaces with it!''
                          [tv_Name tv, job_Error_String j])
                       (New [])), b2)
                | ProvisionerJobCanceled \<Rightarrow>
                    (Some (BuildError StatusBadRequest
                       (Str ''The provided template version was canceled during import. You cannot build workspaces with it!'')
                       (New [])), b2)
                | ProvisionerJobSucceeded \<Rightarrow> (None, b2))))"

definition checkRunningBuild ::
  "'s Store \<Rightarrow> 's \<Rightarrow> Env \<Rightarrow> Builder \<Rightarrow> error option \<times> Builder" where
  "checkRunningBuild S s E b =
     (case getLastBuildJob S s b of
        (Inl err, b1) \<Rightarrow>
          (Some (BuildError StatusInternalServerError
                   (Str ''failed to fetch prior build'') (External err)), b1)
      | (Inr job, b1) \<Rightarrow>
          if Active (ConvertProvisionerJobStatus E job) then
            (Some (BuildError StatusConflict (Str ''A workspace build is already active.'')
                     (New [])), b1)
          else (None, b1))"

subsection \<open>One transaction attempt: buildTx\<close>

text \<open>
  \<^verbatim>\<open>buildTx\<close> is one Go function; it is embedded as three consecutive parts so that each
  can be read against its lines: the authorization and the checks (lines 209 to 226),
  the fetches, the defaults and the legacy parameter writes (lines 228 to 289), and the
  inserts of the job, the build and its parameters (lines 291 to 369). The parts pass on
  the Builder, the state of the transaction and the count of calls to \<^verbatim>\<open>uuid.New()\<close>
  and \<^verbatim>\<open>database.Now()\<close>.
\<close>

text \<open>Lines 209 to 214: the authorization runs only when a function is given.\<close>

definition authorize_opt ::
  "'s Store \<Rightarrow> 's \<Rightarrow> Env \<Rightarrow> (Action \<Rightarrow> Objecter \<Rightarrow> bool) option \<Rightarrow> Builder
    \<Rightarrow> error option \<times> Builder" where
  "authorize_opt S s E authFunc b =
     (case authFunc of None \<Rightarrow> (None, b) | Some f \<Rightarrow> authorize S s E f b)"

definition buildTx_checks ::
  "Env \<Rightarrow> 's Store \<Rightarrow> (Action \<Rightarrow> Objecter \<Rightarrow> bool) option \<Rightarrow> 's \<Rightarrow> Builder
    \<Rightarrow> error option \<times> Builder" where
  "buildTx_checks E S authFunc s b =
     (case authorize_opt S s E authFunc b of
        (Some err, b1) \<Rightarrow> (Some err, b1)
      | (None, b1) \<Rightarrow>
          (case checkTemplateVersionMatchesTemplate S s b1 of
             (Some err, b2) \<Rightarrow> (Some err, b2)
           | (None, b2) \<Rightarrow>
               (case checkTemplateJobStatus S s E b2 of
                  (Some err, b3) \<Rightarrow> (Some err, b3)
                | (None, b3) \<Rightarrow> checkRunningBuild S s E b3)))"

text \<open>The inner loop of lines 261 to 273: delete every existing legacy value of the
  same name; a delete that finds no row is tolerated.\<close>

fun deleteOldParams ::
  "'s Store \<Rightarrow> string \<Rightarrow> ParameterValue list \<Rightarrow> 's \<Rightarrow> error option \<times> 's" where
  "deleteOldParams S name [] s = (None, s)"
| "deleteOldParams S name (exists # rest) s =
     (if pv_Name exists = name then
        (case DeleteParameterValueByID S s (pv_ID exists) of
           (r, s1) \<Rightarrow>
             (case hard_error r of
                Some err \<Rightarrow>
                  (Some (BuildError StatusInternalServerError
                           (Sprintf ''Failed to delete old param %q'' [pv_Name exists])
                           (External err)), s1)
              | None \<Rightarrow> deleteOldParams S name rest s1))
      else deleteOldParams S name rest s)"

text \<open>The outer loop of lines 260 to 289 over \<^verbatim>\<open>b.legacyParameterValues\<close>.\<close>

fun writeLegacyParameters ::
  "Env \<Rightarrow> 's Store \<Rightarrow> Builder \<Rightarrow> time \<Rightarrow> ParameterValue list \<Rightarrow> CreateParameterRequest list
    \<Rightarrow> 's \<Rightarrow> nat \<Rightarrow> error option \<times> 's \<times> nat" where
  "writeLegacyParameters E S b now legacyParameters [] s n = (None, s, n)"
| "writeLegacyParameters E S b now legacyParameters (param # ps) s n =
     (case deleteOldParams S (cpr_Name param) legacyParameters s of
        (Some err, s1) \<Rightarrow> (Some err, s1, n)
      | (None, s1) \<Rightarrow>
          (case InsertParameterValue S s1
                  \<lparr> ipv_ID = uuid_New E n,
                    ipv_Name = cpr_Name param,
                    ipv_CreatedAt = now,
                    ipv_UpdatedAt = now,
                    ipv_Scope = ParameterScopeWorkspace,
                    ipv_ScopeID = ws_ID (workspace b),
                    ipv_SourceScheme = cpr_SourceScheme param,
                    ipv_SourceValue = cpr_SourceValue param,
                    ipv_DestinationScheme = cpr_DestinationScheme param \<rparr> of
             (Inl err, s2) \<Rightarrow>
               (Some (BuildError StatusInternalServerError (Str ''insert parameter value'')
                        (External err)), s2, Suc n)
           | (Inr pv, s2) \<Rightarrow> writeLegacyParameters E S b now legacyParameters ps s2 (Suc n)))"

text \<open>Lines 249 to 256: the defaults of initiator and reason are written into the
  Builder.\<close>

definition applyDefaults :: "Builder \<Rightarrow> Builder" where
  "applyDefaults b =
     (let b1 = (if initiator b = uuid_Nil then b\<lparr> initiator := ws_OwnerID (workspace b) \<rparr>
                else b)
      in if reason b1 = [] then b1\<lparr> reason := BuildReasonInitiator \<rparr> else b1)"

text \<open>Lines 291 to 369. \<open>tpl\<close> and \<open>tvJob\<close> are the locals \<^verbatim>\<open>template\<close> and
  \<^verbatim>\<open>templateVersionJob\<close> of lines 228 and 233.\<close>

definition buildTx_insert ::
  "Env \<Rightarrow> 's Store \<Rightarrow> Template \<Rightarrow> ProvisionerJob \<Rightarrow> Builder \<Rightarrow> 's \<Rightarrow> nat
    \<Rightarrow> (error + (WorkspaceBuild \<times> ProvisionerJob)) \<times> Builder \<times> 's \<times> nat" where
  "buildTx_insert E S tpl tvJob b s n =
     (let workspaceBuildID = uuid_New E n in
      case Marshal_WorkspaceProvisionJob E
             \<lparr> wpj_WorkspaceBuildID = workspaceBuildID, wpj_LogLevel = logLevel b \<rparr> of
        Inl err \<Rightarrow>
          (Inl (Errorf ''marshal provision job: %w'' (Some (External err))), b, s, n + 1)
      | Inr input \<Rightarrow>
      (case Marshal_MetadataFromContext E (ctx b) of
        Inl err \<Rightarrow>
          (Inl (BuildError StatusInternalServerError (Str ''marshal metadata'')
                  (External err)), b, s, n + 1)
      | Inr traceMetadataRaw \<Rightarrow>
      (case InsertProvisionerJob S s
              \<lparr> ipj_ID = uuid_New E (n + 1),
                ipj_CreatedAt = database_Now E (n + 2),
                ipj_UpdatedAt = database_Now E (n + 3),
                ipj_InitiatorID = initiator b,
                ipj_OrganizationID = tpl_OrganizationID tpl,
                ipj_Provisioner = tpl_Provisioner tpl,
                ipj_Type = ProvisionerJobTypeWorkspaceBuild,
                ipj_StorageMethod = job_StorageMethod tvJob,
                ipj_FileID = job_FileID tvJob,
                ipj_Input = input,
                ipj_Tags = MutateTags E (ws_OwnerID (workspace b)) (job_Tags tvJob),
                ipj_TraceMetadata =
                  \<lparr> RawMessage = traceMetadataRaw, RawValid = True \<rparr> \<rparr> of
        (Inl err, s1) \<Rightarrow>
          (Inl (BuildError StatusInternalServerError (Str ''insert provisioner job'')
                  (External err)), b, s1, n + 4)
      | (Inr provisionerJob, s1) \<Rightarrow>
      (case getTemplateVersionID S s1 b of
        (Inl err, b1) \<Rightarrow>
          (Inl (BuildError StatusInternalServerError (Str ''compute template version ID'')
                  (External err)), b1, s1, n + 4)
      | (Inr templateVersionID, b1) \<Rightarrow>
      (case getBuildNumber S s1 b1 of
        (Inl err, b2) \<Rightarrow>
          (Inl (BuildError StatusInternalServerError (Str ''compute build number'')
                  (External err)), b2, s1, n + 4)
      | (Inr buildNum, b2) \<Rightarrow>
      (case getState S s1 b2 of
        (Inl err, b3) \<Rightarrow>
          (Inl (BuildError StatusInternalServerError (Str ''compute build state'')
                  (External err)), b3, s1, n + 4)
      | (Inr st, b3) \<Rightarrow>
      (case InsertWorkspaceBuild S s1
              \<lparr> iwb_ID = workspaceBuildID,
                iwb_CreatedAt = database_Now E (n + 4),
                iwb_UpdatedAt = database_Now E (n + 5),
                iwb_WorkspaceID = ws_ID (workspace b3),
                iwb_TemplateVersionID = templateVersionID,
                iwb_BuildNumber = buildNum,
                iwb_ProvisionerState = st,
                iwb_InitiatorID = initiator b3,
                iwb_Transition = transition b3,
                iwb_JobID = job_ID provisionerJob,
                iwb_Reason = reason b3 \<rparr> of
        (Inl err, s2) \<Rightarrow>
          (Inl (BuildError StatusInternalServerError (Str ''insert workspace build'')
                  (External err)), b3, s2, n + 6)
      | (Inr workspaceBuild, s2) \<Rightarrow>
      (case getParameters E S s2 b3 of
        (Inl err, b4) \<Rightarrow> (Inl err, b4, s2, n + 6)
      | (Inr (names, vals), b4) \<Rightarrow>
      (case InsertWorkspaceBuildParameters S s2
              \<lparr> iwbp_WorkspaceBuildID = workspaceBuildID,
                iwbp_Name = names,
                iwbp_Value = vals \<rparr> of
        (Some err, s3) \<Rightarrow>
          (Inl (BuildError StatusInternalServerError
                  (Str ''insert workspace build parameters: %w'') (External err)),
           b4, s3, n + 6)
      | (None, s3) \<Rightarrow> (Inr (workspaceBuild, provisionerJob), b4, s3, n + 6))))))))))"

text \<open>Lines 228 to 289, followed by the inserts.\<close>

definition buildTx_params ::
  "Env \<Rightarrow> 's Store \<Rightarrow> Builder \<Rightarrow> 's \<Rightarrow> nat
    \<Rightarrow> (error + (WorkspaceBuild \<times> ProvisionerJob)) \<times> Builder \<times> 's \<times> nat" where
  "buildTx_params E S b s n =
     (case getTemplate S s b of
        (Inl err, b1) \<Rightarrow>
          (Inl (BuildError StatusInternalServerError (Str ''failed to fetch template'')
                  (External err)), b1, s, n)
      | (Inr tpl, b1) \<Rightarrow>
      (case getTemplateVersionJob S s b1 of
        (Inl err, b2) \<Rightarrow>
          (Inl (BuildError StatusInternalServerError
                  (Str ''failed to fetch template version job'') (External err)), b2, s, n)
      | (Inr tvJob, b2) \<Rightarrow>
      (case getLastParameterValues S s b2 of
        (Inl err, b3) \<Rightarrow>
          (Inl (BuildError StatusInternalServerError
                  (Str ''failed to fetch previous legacy parameters.'') (External err)),
           b3, s, n)
      | (Inr legacyParameters, b3) \<Rightarrow>
      (let b4 = applyDefaults b3;
           now = database_Now E n in
       case writeLegacyParameters E S b4 now legacyParameters (legacyParameterValues b4)
              s (n + 1) of
         (Some err, s1, n1) \<Rightarrow> (Inl err, b4, s1, n1)
       | (None, s1, n1) \<Rightarrow> buildTx_insert E S tpl tvJob b4 s1 n1))))"

definition buildTx ::
  "Env \<Rightarrow> 's Store \<Rightarrow> (Action \<Rightarrow> Objecter \<Rightarrow> bool) option \<Rightarrow> Builder \<Rightarrow> 's \<Rightarrow> nat
    \<Rightarrow> (error + (WorkspaceBuild \<times> ProvisionerJob)) \<times> Builder \<times> 's \<times> nat" where
  "buildTx E S authFunc b s n =
     (case buildTx_checks E S authFunc s b of
        (Some err, b1) \<Rightarrow> (Inl err, b1, s, n)
      | (None, b1) \<Rightarrow> buildTx_params E S b1 s n)"

subsection \<open>Build: the transaction and the retry loop\<close>

text \<open>Modelled from the spec: the transaction wrapper \<^verbatim>\<open>Store.InTx\<close> is implemented outside
  the sources. By the specification, the function it is given runs on a
  transaction-scoped handle; when that function returns an error the writes of the
  attempt are rolled back by the store and the error is surfaced, otherwise they are
  committed. \<open>c\<close> is what the closure captures and assigns.\<close>

definition InTx ::
  "'s Store \<Rightarrow> ('s \<Rightarrow> 'c \<Rightarrow> error option \<times> 'c \<times> 's) \<Rightarrow> 's \<Rightarrow> 'c \<Rightarrow> error option \<times> 'c \<times> 's" where
  "InTx S fn s c =
     (case fn s c of
        (None, c1, s1) \<Rightarrow> (None, c1, s1)
      | (Some err, c1, s1) \<Rightarrow> (Some err, c1, RollbackTx S s s1))"

text \<open>What the closure of lines 179 to 183 captures: the Builder, the variables
  \<^verbatim>\<open>workspaceBuild\<close> and \<^verbatim>\<open>provisionerJob\<close> of the iteration, and the variable \<^verbatim>\<open>err\<close> of
  line 175. Inside the closure \<^verbatim>\<open>err\<close> is that outer variable: the \<^verbatim>\<open>err\<close> declared by
  \<^verbatim>\<open>err := store.InTx(...)\<close> is in scope only after the statement. \<open>calls\<close> counts the
  calls to \<^verbatim>\<open>uuid.New()\<close> and \<^verbatim>\<open>database.Now()\<close>.\<close>

record captured =
  cap_b :: Builder
  cap_workspaceBuild :: "WorkspaceBuild option"
  cap_provisionerJob :: "ProvisionerJob option"
  cap_err :: "error option"
  cap_calls :: nat

definition Build_closure ::
  "Env \<Rightarrow> 's Store \<Rightarrow> (Action \<Rightarrow> Objecter \<Rightarrow> bool) option \<Rightarrow> 's \<Rightarrow> captured
    \<Rightarrow> error option \<times> captured \<times> 's" where
  "Build_closure E S authFunc s c =
     (case buildTx E S authFunc (cap_b c) s (cap_calls c) of
        (Inl err, b1, s1, n1) \<Rightarrow>
          (Some err,
           \<lparr> cap_b = b1, cap_workspaceBuild = None, cap_provisionerJob = None,
             cap_err = Some err, cap_calls = n1 \<rparr>, s1)
      | (Inr (wb, pj), b1, s1, n1) \<Rightarrow>
          (None,
           \<lparr> cap_b = b1, cap_workspaceBuild = Some wb, cap_provisionerJob = Some pj,
             cap_err = None, cap_calls = n1 \<rparr>, s1))"

text \<open>Lines 184 to 190: \<^verbatim>\<open>xerrors.As(err, &pqe)\<close> and \<^verbatim>\<open>pqe.Code == "40001"\<close>.\<close>

definition is_serialization_failure :: "error option \<Rightarrow> bool" where
  "is_serialization_failure r =
     (case r of
        None \<Rightarrow> False
      | Some err \<Rightarrow> As_pq err = Some ''40001'')"

text \<open>The loop of lines 176 to 197 from the iteration \<open>retries\<close> on. The result is what
  \<^verbatim>\<open>Build\<close> returns, \<^verbatim>\<open>(*WorkspaceBuild, *ProvisionerJob, error)\<close>, with the Builder, the
  store and the count of calls as the loop leaves them.\<close>

function Build_loop ::
  "Env \<Rightarrow> 's Store \<Rightarrow> (Action \<Rightarrow> Objecter \<Rightarrow> bool) option \<Rightarrow> nat \<Rightarrow> Builder
    \<Rightarrow> error option \<Rightarrow> 's \<Rightarrow> nat
    \<Rightarrow> (WorkspaceBuild option \<times> ProvisionerJob option \<times> error option) \<times> Builder \<times> 's \<times> nat"
  where
  "Build_loop E S authFunc retries b err s n =
     (if retries < 5 then
        (case InTx S (Build_closure E S authFunc) s
                \<lparr> cap_b = b, cap_workspaceBuild = None, cap_provisionerJob = None,
                  cap_err = err, cap_calls = n \<rparr> of
           (err_tx, c, s1) \<Rightarrow>
             if is_serialization_failure err_tx then
               Build_loop E S authFunc (retries + 1) (cap_b c) (cap_err c) s1 (cap_calls c)
             else if err_tx \<noteq> None then
               ((None, None, err_tx), cap_b c, s1, cap_calls c)
             else
               ((cap_workspaceBuild c, cap_provisionerJob c, None), cap_b c, s1, cap_calls c))
      else
        ((None, None, Some (Errorf ''too many errors; last error: %w'' err)), b, s, n))"
  by pat_completeness auto
termination
  by (relation "measure (\<lambda>(E, S, authFunc, retries, b, err, s, n). 5 - retries)") auto

declare Build_loop.simps [simp del]

definition Build ::
  "Env \<Rightarrow> Builder \<Rightarrow> Context \<Rightarrow> 's Store \<Rightarrow> 's
    \<Rightarrow> (Action \<Rightarrow> Objecter \<Rightarrow> bool) option \<Rightarrow> nat
    \<Rightarrow> (WorkspaceBuild option \<times> ProvisionerJob option \<times> error option) \<times> Builder \<times> 's \<times> nat"
  where
  "Build E b c S s authFunc n = Build_loop E S authFunc 0 (b\<lparr> ctx := c \<rparr>) None s n"

text \<open>
  \<open>at_retry E S authFunc k b err s n\<close>: the variables of the loop at the start of the
  iteration \<^verbatim>\<open>retries = k\<close>, when the loop starts with \<open>b\<close>, \<open>err\<close>, \<open>s\<close> and \<open>n\<close>
  and each of the first \<open>k\<close> iterations ends in \<^verbatim>\<open>continue\<close>, that is, its transaction
  reports a serialization failure; \<open>None\<close> when one of them does not.
\<close>

fun at_retry ::
  "Env \<Rightarrow> 's Store \<Rightarrow> (Action \<Rightarrow> Objecter \<Rightarrow> bool) option \<Rightarrow> nat \<Rightarrow> Builder
    \<Rightarrow> error option \<Rightarrow> 's \<Rightarrow> nat \<Rightarrow> (Builder \<times> error option \<times> 's \<times> nat) option" where
  "at_retry E S authFunc 0 b err s n = Some (b, err, s, n)"
| "at_retry E S authFunc (Suc k) b err s n =
     (case InTx S (Build_closure E S authFunc) s
             \<lparr> cap_b = b, cap_workspaceBuild = None, cap_provisionerJob = None,
               cap_err = err, cap_calls = n \<rparr> of
        (err_tx, c, s1) \<Rightarrow>
          if is_serialization_failure err_tx then
            at_retry E S authFunc k (cap_b c) (cap_err c) s1 (cap_calls c)
          else None)"

subsection \<open>Relations between the Builder before and after\<close>

text \<open>\<open>kept old new\<close>: a cache field that held a value still holds it.\<close>

definition kept :: "'a option \<Rightarrow> 'a option \<Rightarrow> bool" where
  "kept old new = (case old of None \<Rightarrow> True | Some v \<Rightarrow> new = Some v)"

definition cache_kept :: "Builder \<Rightarrow> Builder \<Rightarrow> bool" where
  "cache_kept b b' \<longleftrightarrow>
     kept (template b) (template b') \<and>
     kept (templateVersion b) (templateVersion b') \<and>
     kept (templateVersionJob b) (templateVersionJob b') \<and>
     kept (templateVersionParameters b) (templateVersionParameters b') \<and>
     kept (lastBuild b) (lastBuild b') \<and>
     kept (lastBuildParameters b) (lastBuildParameters b') \<and>
     kept (lastParameterValues b) (lastParameterValues b') \<and>
     kept (lastBuildJob b) (lastBuildJob b')"

text \<open>The options of the request are the same (initiator and reason may have received
  their defaults).\<close>

definition same_request :: "Builder \<Rightarrow> Builder \<Rightarrow> bool" where
  "same_request b b' \<longleftrightarrow>
     workspace b' = workspace b \<and> transition b' = transition b \<and>
     version b' = version b \<and> state b' = state b \<and> logLevel b' = logLevel b \<and>
     legacyParameterValues b' = legacyParameterValues b \<and>
     richParameterValues b' = richParameterValues b \<and> ctx b' = ctx b"

text \<open>\<open>coherent old new r\<close>: the cache field is still empty, or it holds the value \<open>r\<close>
  that the read resolved to before.\<close>

definition coherent :: "'a option \<Rightarrow> 'a option \<Rightarrow> ext_error + 'a \<Rightarrow> bool" where
  "coherent old new r = (case new of None \<Rightarrow> old = None | Some v \<Rightarrow> r = Inr v)"

text \<open>\<open>grows S s b b'\<close>: \<open>b'\<close> is \<open>b\<close> with more of the cache filled, by reads of the
  store in the state \<open>s\<close>.\<close>

definition grows :: "'s Store \<Rightarrow> 's \<Rightarrow> Builder \<Rightarrow> Builder \<Rightarrow> bool" where
  "grows S s b b' \<longleftrightarrow>
     same_request b b' \<and> initiator b' = initiator b \<and> reason b' = reason b \<and>
     coherent (template b) (template b') (fst (getTemplate S s b)) \<and>
     coherent (lastBuild b) (lastBuild b') (fst (getLastBuild S s b)) \<and>
     coherent (templateVersion b) (templateVersion b') (fst (getTemplateVersion S s b)) \<and>
     coherent (templateVersionJob b) (templateVersionJob b')
       (fst (getTemplateVersionJob S s b)) \<and>
     coherent (lastBuildJob b) (lastBuildJob b') (fst (getLastBuildJob S s b)) \<and>
     kept (templateVersionParameters b) (templateVersionParameters b') \<and>
     kept (lastBuildParameters b) (lastBuildParameters b') \<and>
     kept (lastParameterValues b) (lastParameterValues b')"

text \<open>\<open>evolves S b b'\<close>: the request is the same, the cache kept what it held, and the last
  build and the template in the cache of \<open>b'\<close> were already in the cache of \<open>b\<close> or were
  read from the store.\<close>

definition evolves :: "'s Store \<Rightarrow> Builder \<Rightarrow> Builder \<Rightarrow> bool" where
  "evolves S b b' \<longleftrightarrow>
     same_request b b' \<and> cache_kept b b' \<and>
     (case lastBuild b' of
        None \<Rightarrow> True
      | Some lb \<Rightarrow>
          lastBuild b = Some lb
          \<or> (\<exists>s1. GetLatestWorkspaceBuildByWorkspaceID S s1 (ws_ID (workspace b)) = Inr lb)) \<and>
     (case template b' of
        None \<Rightarrow> True
      | Some t \<Rightarrow>
          template b = Some t
          \<or> (\<exists>s1. GetTemplateByID S s1 (ws_TemplateID (workspace b)) = Inr t))"

definition resolved_state :: "Builder \<Rightarrow> WorkspaceBuild \<Rightarrow> bytes" where
  "resolved_state b lb =
     (if orphan (state b) then []
      else (case explicit (state b) of Some st \<Rightarrow> st | None \<Rightarrow> wb_ProvisionerState lb))"

text \<open>The action that \<^verbatim>\<open>authorize\<close> requires on the workspace for a transition: the
  \<^verbatim>\<open>switch\<close> of lines 586 to 593, \<open>None\<close> for its \<^verbatim>\<open>default\<close> branch.\<close>

fun required_action :: "WorkspaceTransition \<Rightarrow> Action option" where
  "required_action WorkspaceTransitionDelete = Some ActionDelete"
| "required_action WorkspaceTransitionStart = Some ActionUpdate"
| "required_action WorkspaceTransitionStop = Some ActionUpdate"
| "required_action (WorkspaceTransitionOther t) = None"

text \<open>The Builders that the exported functions produce: the fields are not exported, so
  a caller has \<^verbatim>\<open>New\<close> and the option methods only.\<close>

inductive configured :: "Builder \<Rightarrow> bool" where
  "configured (New_Builder w t)"
| "configured b \<Longrightarrow> configured (VersionID v b)"
| "configured b \<Longrightarrow> configured (ActiveVersion b)"
| "configured b \<Longrightarrow> configured (State st b)"
| "configured b \<Longrightarrow> configured (Orphan b)"
| "configured b \<Longrightarrow> configured (LogLevel l b)"
| "configured b \<Longrightarrow> configured (Initiator u b)"
| "configured b \<Longrightarrow> configured (Reason r b)"
| "configured b \<Longrightarrow> configured (LegacyParameterValues lp b)"
| "configured b \<Longrightarrow> configured (RichParameterValues rp b)"
| "configured b \<Longrightarrow> configured (SetLastWorkspaceBuildInTx build b)"
| "configured b \<Longrightarrow> configured (SetLastWorkspaceBuildJobInTx job b)"

subsection \<open>An in-memory store and an environment for concrete runs\<close>

text \<open>
  The theorems below hold for every store and every environment. To run the Builder on
  concrete inputs, \<open>memStore\<close> implements the store interface over tables held in
  lists, newest build first. As a test double it can report serialization failures:
  while \<open>db_conflicts\<close> is positive, inserting a provisioner job fails with the
  \<^verbatim>\<open>pq\<close> code 40001 and the count goes down by one. A rollback restores the tables and
  keeps the count.
\<close>

record MemDB =
  db_templates :: "Template list"
  db_templateVersions :: "TemplateVersion list"
  db_provisionerJobs :: "ProvisionerJob list"
  db_workspaceBuilds :: "WorkspaceBuild list"
  db_workspaceBuildParameters :: "WorkspaceBuildParameter list"
  db_templateVersionParameters :: "TemplateVersionParameter list"
  db_parameterValues :: "ParameterValue list"
  db_conflicts :: nat

definition lookup :: "('a \<Rightarrow> bool) \<Rightarrow> 'a list \<Rightarrow> ext_error + 'a" where
  "lookup P xs = (case find P xs of None \<Rightarrow> Inl ErrNoRows | Some x \<Rightarrow> Inr x)"

definition job_of_params :: "InsertProvisionerJobParams \<Rightarrow> ProvisionerJob" where
  "job_of_params p =
     \<lparr> job_ID = ipj_ID p, job_CreatedAt = ipj_CreatedAt p, job_UpdatedAt = ipj_UpdatedAt p,
       job_StartedAt = None, job_CanceledAt = None, job_CompletedAt = None,
       job_Error_String = [], job_InitiatorID = ipj_InitiatorID p,
       job_OrganizationID = ipj_OrganizationID p, job_Provisioner = ipj_Provisioner p,
       job_Type = ipj_Type p, job_StorageMethod = ipj_StorageMethod p,
       job_FileID = ipj_FileID p, job_Input = ipj_Input p, job_Tags = ipj_Tags p,
       job_TraceMetadata = ipj_TraceMetadata p \<rparr>"

definition build_of_params :: "InsertWorkspaceBuildParams \<Rightarrow> WorkspaceBuild" where
  "build_of_params p =
     \<lparr> wb_ID = iwb_ID p, wb_CreatedAt = iwb_CreatedAt p, wb_UpdatedAt = iwb_UpdatedAt p,
       wb_WorkspaceID = iwb_WorkspaceID p, wb_TemplateVersionID = iwb_TemplateVersionID p,
       wb_BuildNumber = iwb_BuildNumber p, wb_ProvisionerState = iwb_ProvisionerState p,
       wb_InitiatorID = iwb_InitiatorID p, wb_Transition = iwb_Transition p,
       wb_JobID = iwb_JobID p, wb_Reason = iwb_Reason p \<rparr>"

definition value_of_params :: "InsertParameterValueParams \<Rightarrow> ParameterValue" where
  "value_of_params p =
     \<lparr> pv_ID = ipv_ID p, pv_Name = ipv_Name p, pv_Scope = ipv_Scope p,
       pv_ScopeID = ipv_ScopeID p, pv_SourceScheme = ipv_SourceScheme p,
       pv_SourceValue = ipv_SourceValue p,
       pv_DestinationScheme = ipv_DestinationScheme p \<rparr>"

definition memStore :: "MemDB Store" where
  "memStore =
     \<lparr> GetTemplateByID = (\<lambda>s i. lookup (\<lambda>t. tpl_ID t = i) (db_templates s)),
       GetTemplateVersionByID = (\<lambda>s i. lookup (\<lambda>v. tv_ID v = i) (db_templateVersions s)),
       GetProvisionerJobByID = (\<lambda>s i. lookup (\<lambda>j. job_ID j = i) (db_provisionerJobs s)),
       GetLatestWorkspaceBuildByWorkspaceID =
         (\<lambda>s i. lookup (\<lambda>w. wb_WorkspaceID w = i) (db_workspaceBuilds s)),
       GetWorkspaceBuildParameters =
         (\<lambda>s i. (filter (\<lambda>p. wbp_WorkspaceBuildID p = i) (db_workspaceBuildParameters s),
                 None)),
       GetTemplateVersionParameters =
         (\<lambda>s i. (filter (\<lambda>p. tvp_TemplateVersionID p = i) (db_templateVersionParameters s),
                 None)),
       ParameterValues =
         (\<lambda>s q. (filter (\<lambda>v. pv_Scope v \<in> set (Scopes q) \<and> pv_ScopeID v \<in> set (ScopeIds q))
                    (db_parameterValues s), None)),
       DeleteParameterValueByID =
         (\<lambda>s i. (None,
                 s\<lparr> db_parameterValues := filter (\<lambda>v. pv_ID v \<noteq> i) (db_parameterValues s) \<rparr>)),
       InsertParameterValue =
         (\<lambda>s p. (Inr (value_of_params p),
                 s\<lparr> db_parameterValues := db_parameterValues s @ [value_of_params p] \<rparr>)),
       InsertProvisionerJob =
         (\<lambda>s p. if 0 < db_conflicts s
                then (Inl (PqError ''40001''), s\<lparr> db_conflicts := db_conflicts s - 1 \<rparr>)
                else (Inr (job_of_params p),
                      s\<lparr> db_provisionerJobs := job_of_params p # db_provisionerJobs s \<rparr>)),
       InsertWorkspaceBuild =
         (\<lambda>s p. (Inr (build_of_params p),
                 s\<lparr> db_workspaceBuilds := build_of_params p # db_workspaceBuilds s \<rparr>)),
       InsertWorkspaceBuildParameters =
         (\<lambda>s p. (None,
                 s\<lparr> db_workspaceBuildParameters :=
                      db_workspaceBuildParameters s
                      @ map (\<lambda>(k, v). \<lparr> wbp_WorkspaceBuildID = iwbp_WorkspaceBuildID p,
                                        wbp_Name = k, wbp_Value = v \<rparr>)
                          (zip (iwbp_Name p) (iwbp_Value p)) \<rparr>)),
       RollbackTx = (\<lambda>s s1. s\<lparr> db_conflicts := db_conflicts s1 \<rparr>) \<rparr>"

text \<open>The environment of the concrete runs. Its job status is derived from the
  timestamps and the error text; its resolver takes the override, else the value of the
  last build, else fails.\<close>

definition memStatus :: "ProvisionerJob \<Rightarrow> ProvisionerJobStatus" where
  "memStatus j =
     (if job_CanceledAt j \<noteq> None then ProvisionerJobCanceled
      else if job_StartedAt j = None then ProvisionerJobPending
      else if job_CompletedAt j = None then ProvisionerJobRunning
      else if job_Error_String j = [] then ProvisionerJobSucceeded
      else ProvisionerJobFailed)"

definition memResolve ::
  "WorkspaceBuildParameter list \<Rightarrow> ParameterValue list \<Rightarrow> SDKTemplateVersionParameter
    \<Rightarrow> BuildParameter option \<Rightarrow> ext_error + string" where
  "memResolve rich legacy p ov =
     (case ov of
        Some v \<Rightarrow> Inr (bp_Value v)
      | None \<Rightarrow>
          (case find (\<lambda>r. wbp_Name r = stvp_Name p) rich of
             Some r \<Rightarrow> Inr (wbp_Value r)
           | None \<Rightarrow> Inl (ErrOther ''parameter value is required'')))"

definition memEnv :: Env where
  "memEnv =
     \<lparr> ConvertProvisionerJobStatus = memStatus,
       MutateTags = (\<lambda>owner t. t),
       conversion_TemplateVersionParameter =
         (\<lambda>p. Inr \<lparr> stvp_Name = tvp_Name p, stvp_Schema = tvp_Schema p \<rparr>),
       ValidateResolve = memResolve,
       Marshal_WorkspaceProvisionJob = (\<lambda>j. Inr []),
       Marshal_MetadataFromContext = (\<lambda>c. Inr []),
       ResourceNotFoundResponse_Message = ''Resource not found'',
       uuid_New = (\<lambda>n. 1000 + n),
       database_Now = (\<lambda>n. n) \<rparr>"

text \<open>A workspace 1 of template 10, whose version 20 belongs to it and was imported by
  the job 30; version 21 belongs to no template. Build 40 of the workspace has
  number 7, the state \<open>[1, 2]\<close> and the job 31.\<close>

definition ws1 :: Workspace where
  "ws1 = \<lparr> ws_ID = 1, ws_OwnerID = 2, ws_OrganizationID = 3, ws_TemplateID = 10 \<rparr>"

definition tpl10 :: Template where
  "tpl10 = \<lparr> tpl_ID = 10, tpl_OrganizationID = 3, tpl_Provisioner = ''terraform'',
             tpl_ActiveVersionID = 20 \<rparr>"

definition tv20 :: TemplateVersion where
  "tv20 = \<lparr> tv_ID = 20, tv_TemplateID = \<lparr> UUID = 10, Valid = True \<rparr>, tv_Name = ''v20'',
            tv_JobID = 30 \<rparr>"

definition tv21 :: TemplateVersion where
  "tv21 = \<lparr> tv_ID = 21, tv_TemplateID = \<lparr> UUID = 0, Valid = False \<rparr>, tv_Name = ''v21'',
            tv_JobID = 30 \<rparr>"

definition mkJob :: "uuid \<Rightarrow> time option \<Rightarrow> time option \<Rightarrow> ProvisionerJob" where
  "mkJob i started completed =
     \<lparr> job_ID = i, job_CreatedAt = 0, job_UpdatedAt = 0,
       job_StartedAt = started, job_CanceledAt = None, job_CompletedAt = completed,
       job_Error_String = [], job_InitiatorID = 2,
       job_OrganizationID = 3, job_Provisioner = ''terraform'',
       job_Type = ProvisionerJobTypeWorkspaceBuild, job_StorageMethod = ''file'',
       job_FileID = 5, job_Input = [], job_Tags = [],
       job_TraceMetadata = \<lparr> RawMessage = [], RawValid = False \<rparr> \<rparr>"

definition build40 :: WorkspaceBuild where
  "build40 =
     \<lparr> wb_ID = 40, wb_CreatedAt = 0, wb_UpdatedAt = 0, wb_WorkspaceID = 1,
       wb_TemplateVersionID = 20, wb_BuildNumber = 7, wb_ProvisionerState = [1, 2],
       wb_InitiatorID = 2, wb_Transition = WorkspaceTransitionStart, wb_JobID = 31,
       wb_Reason = ''initiator'' \<rparr>"

text \<open>\<open>memDB importJob lastJob builds conflicts\<close>: the tables with the given import job
  30, the given job 31 of the last build, the given builds and the given count of coming
  serialization failures.\<close>

definition memDB ::
  "ProvisionerJob \<Rightarrow> ProvisionerJob \<Rightarrow> WorkspaceBuild list \<Rightarrow> nat \<Rightarrow> MemDB" where
  "memDB importJob lastJob builds conflicts =
     \<lparr> db_templates = [tpl10],
       db_templateVersions = [tv20, tv21],
       db_provisionerJobs = [importJob, lastJob],
       db_workspaceBuilds = builds,
       db_workspaceBuildParameters = [],
       db_templateVersionParameters = [],
       db_parameterValues = [],
       db_conflicts = conflicts \<rparr>"

definition allowAll :: "Action \<Rightarrow> Objecter \<Rightarrow> bool" where
  "allowAll a obj = True"

text \<open>An authorization function of a caller who may act on workspaces only.\<close>

fun workspaceOnly :: "Action \<Rightarrow> Objecter \<Rightarrow> bool" where
  "workspaceOnly a (ObjWorkspace w) = True"
| "workspaceOnly a (ObjTemplate t) = False"
| "workspaceOnly a (ObjTemplateRBACObject t) = False"

definition denyAll :: "Action \<Rightarrow> Objecter \<Rightarrow> bool" where
  "denyAll a obj = False"

text \<open>The Builder of a start request for the workspace, the jobs of the tables, and the
  job and the build that a first successful attempt on these tables inserts.\<close>

definition builder1 :: Builder where
  "builder1 = New_Builder ws1 WorkspaceTransitionStart"

definition job30 :: ProvisionerJob where
  "job30 = mkJob 30 (Some 1) (Some 2)"

definition job30_pending :: ProvisionerJob where
  "job30_pending = mkJob 30 None None"

definition job30_canceled :: ProvisionerJob where
  "job30_canceled = (mkJob 30 (Some 1) (Some 2))\<lparr> job_CanceledAt := Some 2 \<rparr>"

definition job31 :: ProvisionerJob where
  "job31 = mkJob 31 (Some 1) (Some 2)"

definition job31_running :: ProvisionerJob where
  "job31_running = mkJob 31 (Some 1) None"

definition job1002 :: ProvisionerJob where
  "job1002 =
     (mkJob 1002 None None)
       \<lparr> job_CreatedAt := 3, job_UpdatedAt := 4,
         job_TraceMetadata := \<lparr> RawMessage = [], RawValid = True \<rparr> \<rparr>"

definition build1001 :: WorkspaceBuild where
  "build1001 =
     build40\<lparr> wb_ID := 1001, wb_CreatedAt := 5, wb_UpdatedAt := 6, wb_BuildNumber := 8,
              wb_JobID := 1002 \<rparr>"

text \<open>The Builder as four failed attempts leave it, the error of an attempt whose job
  insert meets a serialization failure, and the job and the build that a fifth attempt
  inserts.\<close>

definition builder1_cached :: Builder where
  "builder1_cached =
     builder1\<lparr> initiator := 2, reason := ''initiator'', template := Some tpl10,
               templateVersion := Some tv20, templateVersionJob := Some job30,
               lastBuild := Some build40, lastParameterValues := Some [],
               lastBuildJob := Some job31 \<rparr>"

definition conflict_error :: error where
  "conflict_error =
     BuildError 500 (Str ''insert provisioner job'') (External (PqError ''40001''))"





text \<open>A second version 22 of template 10, a last build on version 22, and tables that
  hold them: the active version 20 of the template differs from the version of the last
  build.\<close>

definition tv22 :: TemplateVersion where
  "tv22 = \<lparr> tv_ID = 22, tv_TemplateID = \<lparr> UUID = 10, Valid = True \<rparr>, tv_Name = ''v22'',
            tv_JobID = 30 \<rparr>"

definition build41 :: WorkspaceBuild where
  "build41 = build40\<lparr> wb_TemplateVersionID := 22 \<rparr>"

definition memDB_v22 :: MemDB where
  "memDB_v22 =
     (memDB job30 job31 [build41] 0)\<lparr> db_templateVersions := [tv20, tv21, tv22] \<rparr>"

section \<open>Properties\<close>

subsection \<open>How the cache grows during the reads of one attempt\<close>

lemma kept_refl: "kept x x"
  by (simp add: kept_def split: option.splits)

lemma kept_trans: "kept x y \<Longrightarrow> kept y z \<Longrightarrow> kept x z"
  by (auto simp: kept_def split: option.splits)

lemma kept_Some: "kept x (Some v) \<longleftrightarrow> x = None \<or> x = Some v"
  by (auto simp: kept_def split: option.splits)

lemma cache_kept_refl: "cache_kept b b"
  by (simp add: cache_kept_def kept_refl)

lemma cache_kept_trans: "cache_kept a b \<Longrightarrow> cache_kept b c \<Longrightarrow> cache_kept a c"
  unfolding cache_kept_def by (blast intro: kept_trans)

lemma same_request_refl: "same_request b b"
  by (simp add: same_request_def)

lemma same_request_trans: "same_request a b \<Longrightarrow> same_request b c \<Longrightarrow> same_request a c"
  by (simp add: same_request_def)

text \<open>What each read resolves to, in terms of the reads it makes.\<close>

lemma fst_getTemplate:
  "fst (getTemplate S s b) =
     (case template b of Some t \<Rightarrow> Inr t
      | None \<Rightarrow> GetTemplateByID S s (ws_TemplateID (workspace b)))"
  by (simp add: getTemplate_def split: option.splits sum.splits)

lemma fst_getLastBuild:
  "fst (getLastBuild S s b) =
     (case lastBuild b of Some x \<Rightarrow> Inr x
      | None \<Rightarrow> GetLatestWorkspaceBuildByWorkspaceID S s (ws_ID (workspace b)))"
  by (simp add: getLastBuild_def split: option.splits sum.splits)

lemma fst_getTemplateVersionID:
  "fst (getTemplateVersionID S s b) =
     (case specific (version b) of Some v \<Rightarrow> Inr v
      | None \<Rightarrow>
          if active (version b) then
            (case fst (getTemplate S s b) of Inl e \<Rightarrow> Inl e
             | Inr t \<Rightarrow> Inr (tpl_ActiveVersionID t))
          else
            (case fst (getLastBuild S s b) of Inl e \<Rightarrow> Inl e
             | Inr x \<Rightarrow> Inr (wb_TemplateVersionID x)))"
  by (simp add: getTemplateVersionID_def split: option.splits sum.splits prod.splits)

lemma fst_getTemplateVersion:
  "fst (getTemplateVersion S s b) =
     (case templateVersion b of Some v \<Rightarrow> Inr v
      | None \<Rightarrow>
          (case fst (getTemplateVersionID S s b) of Inl e \<Rightarrow> Inl e
           | Inr vid \<Rightarrow> GetTemplateVersionByID S s vid))"
  by (simp add: getTemplateVersion_def split: option.splits sum.splits prod.splits)

lemma fst_getTemplateVersionJob:
  "fst (getTemplateVersionJob S s b) =
     (case templateVersionJob b of Some j \<Rightarrow> Inr j
      | None \<Rightarrow>
          (case fst (getTemplateVersion S s b) of Inl e \<Rightarrow> Inl e
           | Inr v \<Rightarrow> GetProvisionerJobByID S s (tv_JobID v)))"
  by (simp add: getTemplateVersionJob_def split: option.splits sum.splits prod.splits)

lemma fst_getLastBuildJob:
  "fst (getLastBuildJob S s b) =
     (case lastBuildJob b of Some j \<Rightarrow> Inr j
      | None \<Rightarrow>
          (case fst (getLastBuild S s b) of Inl e \<Rightarrow> Inl e
           | Inr x \<Rightarrow> GetProvisionerJobByID S s (wb_JobID x)))"
  by (simp add: getLastBuildJob_def split: option.splits sum.splits prod.splits)

lemma coherent_refl_iff: "coherent c c r \<longleftrightarrow> (\<forall>v. c = Some v \<longrightarrow> r = Inr v)"
  by (auto simp: coherent_def split: option.splits)

lemma grows_refl: "grows S s b b"
  by (simp add: grows_def same_request_refl kept_refl coherent_refl_iff fst_getTemplate
      fst_getLastBuild fst_getTemplateVersion fst_getTemplateVersionJob fst_getLastBuildJob)

lemma growsD:
  assumes "grows S s b b'"
  shows "same_request b b'" and "initiator b' = initiator b" and "reason b' = reason b"
    and "coherent (template b) (template b') (fst (getTemplate S s b))"
    and "coherent (lastBuild b) (lastBuild b') (fst (getLastBuild S s b))"
    and "coherent (templateVersion b) (templateVersion b') (fst (getTemplateVersion S s b))"
    and "coherent (templateVersionJob b) (templateVersionJob b')
           (fst (getTemplateVersionJob S s b))"
    and "coherent (lastBuildJob b) (lastBuildJob b') (fst (getLastBuildJob S s b))"
    and "kept (templateVersionParameters b) (templateVersionParameters b')"
    and "kept (lastBuildParameters b) (lastBuildParameters b')"
    and "kept (lastParameterValues b) (lastParameterValues b')"
  using assms by (simp_all add: grows_def)

lemma same_requestD:
  assumes "same_request b b'"
  shows "workspace b' = workspace b" and "transition b' = transition b"
    and "version b' = version b" and "state b' = state b" and "logLevel b' = logLevel b"
    and "legacyParameterValues b' = legacyParameterValues b"
    and "richParameterValues b' = richParameterValues b" and "ctx b' = ctx b"
  using assms by (simp_all add: same_request_def)

text \<open>Reads are stable while the cache grows.\<close>

lemma stable_read:
  assumes "coherent old new r"
    and "r = (case old of Some v \<Rightarrow> Inr v | None \<Rightarrow> F)"
    and "F' = F"
  shows "(case new of Some v \<Rightarrow> Inr v | None \<Rightarrow> F') = r"
  using assms by (auto simp: coherent_def split: option.splits)

lemma grows_getTemplate:
  assumes "grows S s b b'"
  shows "fst (getTemplate S s b') = fst (getTemplate S s b)"
  unfolding fst_getTemplate [of S s b']
  by (rule stable_read [OF growsD(4) [OF assms] fst_getTemplate])
     (simp add: same_requestD [OF growsD(1) [OF assms]])

lemma grows_getLastBuild:
  assumes "grows S s b b'"
  shows "fst (getLastBuild S s b') = fst (getLastBuild S s b)"
  unfolding fst_getLastBuild [of S s b']
  by (rule stable_read [OF growsD(5) [OF assms] fst_getLastBuild])
     (simp add: same_requestD [OF growsD(1) [OF assms]])

lemma grows_getTemplateVersionID:
  assumes "grows S s b b'"
  shows "fst (getTemplateVersionID S s b') = fst (getTemplateVersionID S s b)"
  unfolding fst_getTemplateVersionID grows_getTemplate [OF assms]
    grows_getLastBuild [OF assms] same_requestD(3) [OF growsD(1) [OF assms]]
  by (rule refl)

lemma grows_getTemplateVersion:
  assumes "grows S s b b'"
  shows "fst (getTemplateVersion S s b') = fst (getTemplateVersion S s b)"
  unfolding fst_getTemplateVersion [of S s b']
  by (rule stable_read [OF growsD(6) [OF assms] fst_getTemplateVersion])
     (simp add: grows_getTemplateVersionID [OF assms])

lemma grows_getTemplateVersionJob:
  assumes "grows S s b b'"
  shows "fst (getTemplateVersionJob S s b') = fst (getTemplateVersionJob S s b)"
  unfolding fst_getTemplateVersionJob [of S s b']
  by (rule stable_read [OF growsD(7) [OF assms] fst_getTemplateVersionJob])
     (simp add: grows_getTemplateVersion [OF assms])

lemma grows_getLastBuildJob:
  assumes "grows S s b b'"
  shows "fst (getLastBuildJob S s b') = fst (getLastBuildJob S s b)"
  unfolding fst_getLastBuildJob [of S s b']
  by (rule stable_read [OF growsD(8) [OF assms] fst_getLastBuildJob])
     (simp add: grows_getLastBuild [OF assms])

lemma coherent_trans:
  assumes "coherent x y r" and "coherent y z r"
  shows "coherent x z r"
  using assms by (auto simp: coherent_def split: option.splits)

lemma grows_trans:
  assumes ab: "grows S s a b" and bc: "grows S s b c"
  shows "grows S s a c"
proof -
  note r = grows_getTemplate [OF ab] grows_getLastBuild [OF ab] grows_getTemplateVersion [OF ab]
    grows_getTemplateVersionJob [OF ab] grows_getLastBuildJob [OF ab]
  have "same_request a c"
    using growsD(1) [OF ab] growsD(1) [OF bc] by (rule same_request_trans)
  moreover have "initiator c = initiator a" "reason c = reason a"
    using growsD(2,3) [OF ab] growsD(2,3) [OF bc] by simp_all
  moreover have "coherent (template a) (template c) (fst (getTemplate S s a))"
    using growsD(4) [OF ab] growsD(4) [OF bc] unfolding r by (rule coherent_trans)
  moreover have "coherent (lastBuild a) (lastBuild c) (fst (getLastBuild S s a))"
    using growsD(5) [OF ab] growsD(5) [OF bc] unfolding r by (rule coherent_trans)
  moreover have "coherent (templateVersion a) (templateVersion c)
      (fst (getTemplateVersion S s a))"
    using growsD(6) [OF ab] growsD(6) [OF bc] unfolding r by (rule coherent_trans)
  moreover have "coherent (templateVersionJob a) (templateVersionJob c)
      (fst (getTemplateVersionJob S s a))"
    using growsD(7) [OF ab] growsD(7) [OF bc] unfolding r by (rule coherent_trans)
  moreover have "coherent (lastBuildJob a) (lastBuildJob c) (fst (getLastBuildJob S s a))"
    using growsD(8) [OF ab] growsD(8) [OF bc] unfolding r by (rule coherent_trans)
  moreover have "kept (templateVersionParameters a) (templateVersionParameters c)"
    using growsD(9) [OF ab] growsD(9) [OF bc] by (rule kept_trans)
  moreover have "kept (lastBuildParameters a) (lastBuildParameters c)"
    using growsD(10) [OF ab] growsD(10) [OF bc] by (rule kept_trans)
  moreover have "kept (lastParameterValues a) (lastParameterValues c)"
    using growsD(11) [OF ab] growsD(11) [OF bc] by (rule kept_trans)
  ultimately show ?thesis
    by (simp add: grows_def)
qed

lemma coherent_kept:
  assumes "coherent old new r" and "r = (case old of Some v \<Rightarrow> Inr v | None \<Rightarrow> F)"
  shows "kept old new"
  using assms by (auto simp: coherent_def kept_def split: option.splits)

lemma grows_cache_kept:
  assumes "grows S s b b'"
  shows "cache_kept b b'"
  unfolding cache_kept_def
  using coherent_kept [OF growsD(4) [OF assms] fst_getTemplate]
    coherent_kept [OF growsD(5) [OF assms] fst_getLastBuild]
    coherent_kept [OF growsD(6) [OF assms] fst_getTemplateVersion]
    coherent_kept [OF growsD(7) [OF assms] fst_getTemplateVersionJob]
    coherent_kept [OF growsD(8) [OF assms] fst_getLastBuildJob]
    growsD(9,10,11) [OF assms]
  by simp


text \<open>Filling a cache field with what its read resolves to lets the cache grow.\<close>

lemma grows_set_template:
  "grows S s b b1 \<Longrightarrow> fst (getTemplate S s b) = Inr v
    \<Longrightarrow> grows S s b (b1\<lparr> template := Some v \<rparr>)"
  by (simp add: grows_def same_request_def coherent_def)

lemma grows_set_lastBuild:
  "grows S s b b1 \<Longrightarrow> fst (getLastBuild S s b) = Inr v
    \<Longrightarrow> grows S s b (b1\<lparr> lastBuild := Some v \<rparr>)"
  by (simp add: grows_def same_request_def coherent_def)

lemma grows_set_templateVersion:
  "grows S s b b1 \<Longrightarrow> fst (getTemplateVersion S s b) = Inr v
    \<Longrightarrow> grows S s b (b1\<lparr> templateVersion := Some v \<rparr>)"
  by (simp add: grows_def same_request_def coherent_def)

lemma grows_set_templateVersionJob:
  "grows S s b b1 \<Longrightarrow> fst (getTemplateVersionJob S s b) = Inr v
    \<Longrightarrow> grows S s b (b1\<lparr> templateVersionJob := Some v \<rparr>)"
  by (simp add: grows_def same_request_def coherent_def)

lemma grows_set_lastBuildJob:
  "grows S s b b1 \<Longrightarrow> fst (getLastBuildJob S s b) = Inr v
    \<Longrightarrow> grows S s b (b1\<lparr> lastBuildJob := Some v \<rparr>)"
  by (simp add: grows_def same_request_def coherent_def)

lemma grows_set_templateVersionParameters:
  "grows S s b b1 \<Longrightarrow> templateVersionParameters b = None
    \<Longrightarrow> grows S s b (b1\<lparr> templateVersionParameters := Some v \<rparr>)"
  by (simp add: grows_def same_request_def kept_def)

lemma grows_set_lastParameterValues:
  "grows S s b b1 \<Longrightarrow> lastParameterValues b = None
    \<Longrightarrow> grows S s b (b1\<lparr> lastParameterValues := Some v \<rparr>)"
  by (simp add: grows_def same_request_def kept_def)

text \<open>Every getter lets the cache grow.\<close>

lemma getTemplate_grows: "grows S s b (snd (getTemplate S s b))"
  by (auto simp: getTemplate_def grows_refl fst_getTemplate intro!: grows_set_template
      split: option.splits sum.splits)

lemma getLastBuild_grows: "grows S s b (snd (getLastBuild S s b))"
  by (auto simp: getLastBuild_def grows_refl fst_getLastBuild intro!: grows_set_lastBuild
      split: option.splits sum.splits)

lemma getTemplateVersionID_grows: "grows S s b (snd (getTemplateVersionID S s b))"
  using getTemplate_grows [of S s b] getLastBuild_grows [of S s b]
  by (auto simp: getTemplateVersionID_def grows_refl split: option.splits sum.splits prod.splits)

lemma getTemplateVersion_grows: "grows S s b (snd (getTemplateVersion S s b))"
  using getTemplateVersionID_grows [of S s b]
  by (auto simp: getTemplateVersion_def grows_refl fst_getTemplateVersion
      intro!: grows_set_templateVersion split: option.splits sum.splits prod.splits)

lemma getTemplateVersionJob_grows: "grows S s b (snd (getTemplateVersionJob S s b))"
  using getTemplateVersion_grows [of S s b]
  by (auto simp: getTemplateVersionJob_def grows_refl fst_getTemplateVersionJob
      intro!: grows_set_templateVersionJob split: option.splits sum.splits prod.splits)

lemma getLastBuildJob_grows: "grows S s b (snd (getLastBuildJob S s b))"
  using getLastBuild_grows [of S s b]
  by (auto simp: getLastBuildJob_def grows_refl fst_getLastBuildJob
      intro!: grows_set_lastBuildJob split: option.splits sum.splits prod.splits)

lemma getBuildNumber_grows: "grows S s b (snd (getBuildNumber S s b))"
  using getLastBuild_grows [of S s b]
  by (auto simp: getBuildNumber_def split: sum.splits prod.splits)

lemma getState_grows: "grows S s b (snd (getState S s b))"
  using getLastBuild_grows [of S s b]
  by (auto simp: getState_def grows_refl split: option.splits sum.splits prod.splits)

lemma getLastBuildParameters_grows: "grows S s b (snd (getLastBuildParameters S s b))"
  using getLastBuild_grows [of S s b]
  by (auto simp: getLastBuildParameters_def grows_refl
      split: option.splits sum.splits prod.splits)

lemma getTemplateVersionParameters_grows:
  "grows S s b (snd (getTemplateVersionParameters S s b))"
  using getTemplateVersionID_grows [of S s b]
  by (auto simp: getTemplateVersionParameters_def grows_refl
      intro!: grows_set_templateVersionParameters split: option.splits sum.splits prod.splits)

lemma getLastParameterValues_grows: "grows S s b (snd (getLastParameterValues S s b))"
  by (auto simp: getLastParameterValues_def grows_refl
      intro!: grows_set_lastParameterValues split: option.splits sum.splits prod.splits)

lemma getParameters_grows: "grows S s b (snd (getParameters E S s b))"
proof -
  obtain r1 b1 where g1: "getTemplateVersionParameters S s b = (r1, b1)"
    by (cases "getTemplateVersionParameters S s b")
  obtain r2 b2 where g2: "getLastBuildParameters S s b1 = (r2, b2)"
    by (cases "getLastBuildParameters S s b1")
  obtain r3 b3 where g3: "getLastParameterValues S s b2 = (r3, b3)"
    by (cases "getLastParameterValues S s b2")
  have 1: "grows S s b b1"
    using getTemplateVersionParameters_grows [of S s b] g1 by simp
  have 2: "grows S s b b2"
    using getLastBuildParameters_grows [of S s b1] g2 1 by (auto intro: grows_trans)
  have 3: "grows S s b b3"
    using getLastParameterValues_grows [of S s b2] g3 2 by (auto intro: grows_trans)
  show ?thesis
    using 1 2 3 by (simp add: getParameters_def g1 g2 g3 split: sum.splits)
qed

text \<open>A successful read leaves its value in the cache.\<close>

lemma getTemplate_Inr: "getTemplate S s b = (Inr t, b') \<Longrightarrow> template b' = Some t"
  by (auto simp: getTemplate_def split: option.splits sum.splits)

lemma getLastBuild_Inr: "getLastBuild S s b = (Inr x, b') \<Longrightarrow> lastBuild b' = Some x"
  by (auto simp: getLastBuild_def split: option.splits sum.splits)

lemma getTemplateVersion_Inr:
  "getTemplateVersion S s b = (Inr v, b') \<Longrightarrow> templateVersion b' = Some v"
  by (auto simp: getTemplateVersion_def split: option.splits sum.splits prod.splits)

lemma getTemplateVersionJob_Inr:
  "getTemplateVersionJob S s b = (Inr j, b') \<Longrightarrow> templateVersionJob b' = Some j"
  by (auto simp: getTemplateVersionJob_def split: option.splits sum.splits prod.splits)

lemma getLastBuildJob_Inr:
  "getLastBuildJob S s b = (Inr j, b') \<Longrightarrow> lastBuildJob b' = Some j"
  by (auto simp: getLastBuildJob_def split: option.splits sum.splits prod.splits)

subsection \<open>The checks\<close>

text \<open>The checks, in terms of what the reads resolve to.\<close>

lemma authorize_grows: "grows S s b (snd (authorize S s E f b))"
  using getTemplate_grows [of S s b]
  by (auto simp: authorize_def grows_refl
      split: WorkspaceTransition.splits sum.splits prod.splits)

lemma checkTemplateVersionMatchesTemplate_grows:
  "grows S s b (snd (checkTemplateVersionMatchesTemplate S s b))"
proof -
  obtain r1 b1 where g1: "getTemplate S s b = (r1, b1)"
    by (cases "getTemplate S s b")
  obtain r2 b2 where g2: "getTemplateVersion S s b1 = (r2, b2)"
    by (cases "getTemplateVersion S s b1")
  have 1: "grows S s b b1"
    using getTemplate_grows [of S s b] g1 by simp
  have 2: "grows S s b b2"
    using getTemplateVersion_grows [of S s b1] g2 1 by (auto intro: grows_trans)
  show ?thesis
    using 1 2 by (simp add: checkTemplateVersionMatchesTemplate_def g1 g2 split: sum.splits)
qed

lemma checkTemplateJobStatus_grows: "grows S s b (snd (checkTemplateJobStatus S s E b))"
proof -
  obtain r1 b1 where g1: "getTemplateVersion S s b = (r1, b1)"
    by (cases "getTemplateVersion S s b")
  obtain r2 b2 where g2: "getTemplateVersionJob S s b1 = (r2, b2)"
    by (cases "getTemplateVersionJob S s b1")
  have 1: "grows S s b b1"
    using getTemplateVersion_grows [of S s b] g1 by simp
  have 2: "grows S s b b2"
    using getTemplateVersionJob_grows [of S s b1] g2 1 by (auto intro: grows_trans)
  show ?thesis
    using 1 2
    by (simp add: checkTemplateJobStatus_def g1 g2
        split: sum.splits ProvisionerJobStatus.splits)
qed

lemma checkRunningBuild_grows: "grows S s b (snd (checkRunningBuild S s E b))"
  using getLastBuildJob_grows [of S s b]
  by (auto simp: checkRunningBuild_def split: sum.splits prod.splits)

lemma fst_checkTemplateVersionMatchesTemplate:
  "fst (checkTemplateVersionMatchesTemplate S s b) =
     (case fst (getTemplate S s b) of
        Inl err \<Rightarrow>
          Some (BuildError StatusInternalServerError (Str ''failed to fetch template'')
                  (External err))
      | Inr t \<Rightarrow>
          (case fst (getTemplateVersion S s b) of
             Inl err \<Rightarrow>
               Some (BuildError StatusInternalServerError
                       (Str ''failed to fetch template version'') (External err))
           | Inr tv \<Rightarrow>
               if \<not> Valid (tv_TemplateID tv) \<or> UUID (tv_TemplateID tv) \<noteq> tpl_ID t then
                 Some (BuildError StatusBadRequest
                         (Str ''template version doesn't match template'')
                         (New ''templateVersion.TemplateID = %s, template.ID = %s''))
               else None))"
proof -
  obtain r1 b1 where g1: "getTemplate S s b = (r1, b1)"
    by (cases "getTemplate S s b")
  have "grows S s b b1"
    using getTemplate_grows [of S s b] g1 by simp
  then have st: "fst (getTemplateVersion S s b1) = fst (getTemplateVersion S s b)"
    by (rule grows_getTemplateVersion)
  show ?thesis
    unfolding st [symmetric]
    by (simp add: checkTemplateVersionMatchesTemplate_def g1 split: sum.splits prod.splits)
qed

lemma fst_checkTemplateJobStatus:
  "fst (checkTemplateJobStatus S s E b) =
     (case fst (getTemplateVersion S s b) of
        Inl err \<Rightarrow>
          Some (BuildError StatusInternalServerError
                  (Str ''failed to fetch template version'') (External err))
      | Inr tv \<Rightarrow>
          (case fst (getTemplateVersionJob S s b) of
             Inl err \<Rightarrow>
               Some (BuildError StatusInternalServerError
                       (Str ''failed to fetch template version job'') (External err))
           | Inr j \<Rightarrow>
               (case ConvertProvisionerJobStatus E j of
                  ProvisionerJobPending \<Rightarrow>
                    Some (BuildError StatusNotAcceptable
                       (Sprintf ''The provided template version is %s. Wait for it to complete importing!''
                          [status_String ProvisionerJobPending])
                       (New []))
                | ProvisionerJobRunning \<Rightarrow>
                    Some (BuildError StatusNotAcceptable
                       (Sprintf ''The provided template version is %s. Wait for it to complete importing!''
                          [status_String ProvisionerJobRunning])
                       (New []))
                | ProvisionerJobFailed \<Rightarrow>
                    Some (BuildError StatusBadRequest
                       (Sprintf ''The provided template version %q has failed to import: %q. You cannot build workspaces with it!''
                          [tv_Name tv, job_Error_String j])
                       (New []))
                | ProvisionerJobCanceled \<Rightarrow>
                    Some (BuildError StatusBadRequest
                       (Str ''The provided template version was canceled during import. You cannot build workspaces with it!'')
                       (New []))
                | ProvisionerJobSucceeded \<Rightarrow> None)))"
proof -
  obtain r1 b1 where g1: "getTemplateVersion S s b = (r1, b1)"
    by (cases "getTemplateVersion S s b")
  have "grows S s b b1"
    using getTemplateVersion_grows [of S s b] g1 by simp
  then have st: "fst (getTemplateVersionJob S s b1) = fst (getTemplateVersionJob S s b)"
    by (rule grows_getTemplateVersionJob)
  show ?thesis
    unfolding st [symmetric]
    by (simp add: checkTemplateJobStatus_def g1
        split: sum.splits prod.splits ProvisionerJobStatus.splits)
qed

lemma fst_checkRunningBuild:
  "fst (checkRunningBuild S s E b) =
     (case fst (getLastBuildJob S s b) of
        Inl err \<Rightarrow>
          Some (BuildError StatusInternalServerError (Str ''failed to fetch prior build'')
                  (External err))
      | Inr job \<Rightarrow>
          if Active (ConvertProvisionerJobStatus E job) then
            Some (BuildError StatusConflict (Str ''A workspace build is already active.'')
                    (New []))
          else None)"
  by (simp add: checkRunningBuild_def split: sum.splits prod.splits)

lemma grows_checkTemplateVersionMatchesTemplate:
  assumes "grows S s b b'"
  shows "fst (checkTemplateVersionMatchesTemplate S s b')
    = fst (checkTemplateVersionMatchesTemplate S s b)"
  unfolding fst_checkTemplateVersionMatchesTemplate grows_getTemplate [OF assms]
    grows_getTemplateVersion [OF assms]
  by (rule refl)

lemma grows_checkTemplateJobStatus:
  assumes "grows S s b b'"
  shows "fst (checkTemplateJobStatus S s E b') = fst (checkTemplateJobStatus S s E b)"
  unfolding fst_checkTemplateJobStatus grows_getTemplateVersionJob [OF assms]
    grows_getTemplateVersion [OF assms]
  by (rule refl)

lemma grows_checkRunningBuild:
  assumes "grows S s b b'"
  shows "fst (checkRunningBuild S s E b') = fst (checkRunningBuild S s E b)"
  unfolding fst_checkRunningBuild grows_getLastBuildJob [OF assms]
  by (rule refl)

lemma authorize_opt_grows: "grows S s b (snd (authorize_opt S s E authFunc b))"
  by (simp add: authorize_opt_def grows_refl authorize_grows split: option.splits)

lemma fst_buildTx_checks:
  "fst (buildTx_checks E S authFunc s b) =
     (case fst (authorize_opt S s E authFunc b) of
        Some err \<Rightarrow> Some err
      | None \<Rightarrow>
          (case fst (checkTemplateVersionMatchesTemplate S s b) of
             Some err \<Rightarrow> Some err
           | None \<Rightarrow>
               (case fst (checkTemplateJobStatus S s E b) of
                  Some err \<Rightarrow> Some err
                | None \<Rightarrow> fst (checkRunningBuild S s E b))))"
proof -
  obtain r1 b1 where g1: "authorize_opt S s E authFunc b = (r1, b1)"
    by (cases "authorize_opt S s E authFunc b")
  obtain r2 b2 where g2: "checkTemplateVersionMatchesTemplate S s b1 = (r2, b2)"
    by (cases "checkTemplateVersionMatchesTemplate S s b1")
  obtain r3 b3 where g3: "checkTemplateJobStatus S s E b2 = (r3, b3)"
    by (cases "checkTemplateJobStatus S s E b2")
  have 1: "grows S s b b1"
    using authorize_opt_grows [of S s b E authFunc] g1 by simp
  have 2: "grows S s b b2"
    using checkTemplateVersionMatchesTemplate_grows [of S s b1] g2 1
    by (auto intro: grows_trans)
  have 3: "grows S s b b3"
    using checkTemplateJobStatus_grows [of S s b2 E] g3 2 by (auto intro: grows_trans)
  have e2: "r2 = fst (checkTemplateVersionMatchesTemplate S s b)"
    using grows_checkTemplateVersionMatchesTemplate [OF 1] g2 by simp
  have e3: "r3 = fst (checkTemplateJobStatus S s E b)"
    using grows_checkTemplateJobStatus [OF 2, of E] g3 by simp
  have e4: "fst (checkRunningBuild S s E b3) = fst (checkRunningBuild S s E b)"
    by (rule grows_checkRunningBuild [OF 3])
  have "buildTx_checks E S authFunc s b =
     (case authorize_opt S s E authFunc b of
        (Some err, b1) \<Rightarrow> (Some err, b1)
      | (None, b1) \<Rightarrow>
          (case checkTemplateVersionMatchesTemplate S s b1 of
             (Some err, b2) \<Rightarrow> (Some err, b2)
           | (None, b2) \<Rightarrow>
               (case checkTemplateJobStatus S s E b2 of
                  (Some err, b3) \<Rightarrow> (Some err, b3)
                | (None, b3) \<Rightarrow> checkRunningBuild S s E b3)))"
    by (simp add: buildTx_checks_def authorize_opt_def)
  then show ?thesis
    using e2 e3 e4 by (simp add: g1 g2 g3 split: option.splits)
qed

lemma buildTx_checks_grows: "grows S s b (snd (buildTx_checks E S authFunc s b))"
proof -
  obtain r1 b1 where g1: "authorize_opt S s E authFunc b = (r1, b1)"
    by (cases "authorize_opt S s E authFunc b")
  obtain r2 b2 where g2: "checkTemplateVersionMatchesTemplate S s b1 = (r2, b2)"
    by (cases "checkTemplateVersionMatchesTemplate S s b1")
  obtain r3 b3 where g3: "checkTemplateJobStatus S s E b2 = (r3, b3)"
    by (cases "checkTemplateJobStatus S s E b2")
  obtain r4 b4 where g4: "checkRunningBuild S s E b3 = (r4, b4)"
    by (cases "checkRunningBuild S s E b3")
  have 1: "grows S s b b1"
    using authorize_opt_grows [of S s b E authFunc] g1 by simp
  have 2: "grows S s b b2"
    using checkTemplateVersionMatchesTemplate_grows [of S s b1] g2 1
    by (auto intro: grows_trans)
  have 3: "grows S s b b3"
    using checkTemplateJobStatus_grows [of S s b2 E] g3 2 by (auto intro: grows_trans)
  have 4: "grows S s b b4"
    using checkRunningBuild_grows [of S s b3 E] g4 3 by (auto intro: grows_trans)
  have "buildTx_checks E S authFunc s b =
     (case authorize_opt S s E authFunc b of
        (Some err, b1) \<Rightarrow> (Some err, b1)
      | (None, b1) \<Rightarrow>
          (case checkTemplateVersionMatchesTemplate S s b1 of
             (Some err, b2) \<Rightarrow> (Some err, b2)
           | (None, b2) \<Rightarrow>
               (case checkTemplateJobStatus S s E b2 of
                  (Some err, b3) \<Rightarrow> (Some err, b3)
                | (None, b3) \<Rightarrow> checkRunningBuild S s E b3)))"
    by (simp add: buildTx_checks_def authorize_opt_def)
  then show ?thesis
    using 1 2 3 4 by (simp add: g1 g2 g3 g4 split: option.splits)
qed

subsection \<open>One attempt\<close>

text \<open>What a successful read of the derived attributes returns.\<close>

lemma getBuildNumber_Inr:
  assumes "getBuildNumber S s b = (Inr bn, b')"
  shows "\<exists>lb. lastBuild b' = Some lb \<and> bn = wb_BuildNumber lb + 1
    \<and> fst (getLastBuild S s b) = Inr lb"
  using assms getLastBuild_Inr [of S s b]
  by (auto simp: getBuildNumber_def split: sum.splits prod.splits)

lemma getState_Inr:
  assumes "getState S s b = (Inr st, b')"
  shows "if orphan (state b) then st = []
         else (case explicit (state b) of
                 Some x \<Rightarrow> st = x
               | None \<Rightarrow> (\<exists>lb. lastBuild b' = Some lb \<and> st = wb_ProvisionerState lb))"
  using assms getLastBuild_Inr [of S s b]
  by (auto simp: getState_def split: sum.splits prod.splits option.splits if_splits)

lemma getTemplateVersionID_Inr:
  assumes "getTemplateVersionID S s b = (Inr tvid, b')"
  shows "case specific (version b) of
           Some v \<Rightarrow> tvid = v
         | None \<Rightarrow>
             if active (version b)
             then (\<exists>t. template b' = Some t \<and> tvid = tpl_ActiveVersionID t)
             else (\<exists>lb. lastBuild b' = Some lb \<and> tvid = wb_TemplateVersionID lb)"
  using assms getLastBuild_Inr [of S s b] getTemplate_Inr [of S s b]
  by (auto simp: getTemplateVersionID_def split: sum.splits prod.splits option.splits if_splits)

lemma buildTx_insert_InrE:
  assumes "buildTx_insert E S tpl tvJob b s n = (Inr (wb, pj), b', s', n')"
  obtains input metadata s1 tvid b1 bn b2 st b3 s2 names vals where
    "Marshal_WorkspaceProvisionJob E
       \<lparr> wpj_WorkspaceBuildID = uuid_New E n, wpj_LogLevel = logLevel b \<rparr> = Inr input"
    and "Marshal_MetadataFromContext E (ctx b) = Inr metadata"
    and "InsertProvisionerJob S s
              \<lparr> ipj_ID = uuid_New E (n + 1),
                ipj_CreatedAt = database_Now E (n + 2),
                ipj_UpdatedAt = database_Now E (n + 3),
                ipj_InitiatorID = initiator b,
                ipj_OrganizationID = tpl_OrganizationID tpl,
                ipj_Provisioner = tpl_Provisioner tpl,
                ipj_Type = ProvisionerJobTypeWorkspaceBuild,
                ipj_StorageMethod = job_StorageMethod tvJob,
                ipj_FileID = job_FileID tvJob,
                ipj_Input = input,
                ipj_Tags = MutateTags E (ws_OwnerID (workspace b)) (job_Tags tvJob),
                ipj_TraceMetadata = \<lparr> RawMessage = metadata, RawValid = True \<rparr> \<rparr>
         = (Inr pj, s1)"
    and "getTemplateVersionID S s1 b = (Inr tvid, b1)"
    and "getBuildNumber S s1 b1 = (Inr bn, b2)"
    and "getState S s1 b2 = (Inr st, b3)"
    and "InsertWorkspaceBuild S s1
              \<lparr> iwb_ID = uuid_New E n,
                iwb_CreatedAt = database_Now E (n + 4),
                iwb_UpdatedAt = database_Now E (n + 5),
                iwb_WorkspaceID = ws_ID (workspace b3),
                iwb_TemplateVersionID = tvid,
                iwb_BuildNumber = bn,
                iwb_ProvisionerState = st,
                iwb_InitiatorID = initiator b3,
                iwb_Transition = transition b3,
                iwb_JobID = job_ID pj,
                iwb_Reason = reason b3 \<rparr> = (Inr wb, s2)"
    and "getParameters E S s2 b3 = (Inr (names, vals), b')"
    and "InsertWorkspaceBuildParameters S s2
              \<lparr> iwbp_WorkspaceBuildID = uuid_New E n, iwbp_Name = names, iwbp_Value = vals \<rparr>
         = (None, s')"
    and "n' = n + 6"
  using assms unfolding buildTx_insert_def Let_def
  by (auto split: sum.splits prod.splits option.splits)

text \<open>Any relation between Builders that holds whenever the cache grows, that the
  defaults respect and that is transitive, holds between the Builder before and after
  an attempt.\<close>

lemma applyDefaults_same_request: "same_request b (applyDefaults b)"
  by (simp add: applyDefaults_def same_request_def Let_def)

lemma applyDefaults_cache_kept: "cache_kept b (applyDefaults b)"
  by (simp add: applyDefaults_def cache_kept_def kept_refl Let_def)

lemma buildTx_insert_rel:
  assumes g: "\<And>s b b'. grows S s b b' \<Longrightarrow> R b b'"
    and t: "\<And>a b c. R a b \<Longrightarrow> R b c \<Longrightarrow> R a c"
    and eq: "buildTx_insert E S tpl tvJob b s n = (r, b', s', n')"
  shows "R b b'"
proof -
  have r0: "\<And>b. R b b"
    by (rule g [OF grows_refl])
  have r1: "\<And>s x b b'. getTemplateVersionID S s b = (x, b') \<Longrightarrow> R b b'"
    using g getTemplateVersionID_grows by (metis snd_conv)
  have r2: "\<And>s x b b'. getBuildNumber S s b = (x, b') \<Longrightarrow> R b b'"
    using g getBuildNumber_grows by (metis snd_conv)
  have r3: "\<And>s x b b'. getState S s b = (x, b') \<Longrightarrow> R b b'"
    using g getState_grows by (metis snd_conv)
  have r4: "\<And>s x b b'. getParameters E S s b = (x, b') \<Longrightarrow> R b b'"
    using g getParameters_grows by (metis snd_conv)
  show ?thesis
    using eq unfolding buildTx_insert_def Let_def
    by (auto split: sum.splits prod.splits option.splits dest!: r1 r2 r3 r4 intro: r0)
       (blast intro: t)+
qed

lemma buildTx_params_rel:
  assumes g: "\<And>s b b'. grows S s b b' \<Longrightarrow> R b b'"
    and d: "\<And>b. R b (applyDefaults b)"
    and t: "\<And>a b c. R a b \<Longrightarrow> R b c \<Longrightarrow> R a c"
    and eq: "buildTx_params E S b s n = (r, b', s', n')"
  shows "R b b'"
proof -
  have r1: "\<And>s x b b'. getTemplate S s b = (x, b') \<Longrightarrow> R b b'"
    using g getTemplate_grows by (metis snd_conv)
  have r2: "\<And>s x b b'. getTemplateVersionJob S s b = (x, b') \<Longrightarrow> R b b'"
    using g getTemplateVersionJob_grows by (metis snd_conv)
  have r3: "\<And>s x b b'. getLastParameterValues S s b = (x, b') \<Longrightarrow> R b b'"
    using g getLastParameterValues_grows by (metis snd_conv)
  have r4: "\<And>tpl tvJob b s n x b' s' n'.
      buildTx_insert E S tpl tvJob b s n = (x, b', s', n') \<Longrightarrow> R b b'"
    using g t by (rule buildTx_insert_rel)
  show ?thesis
    using eq unfolding buildTx_params_def Let_def
    by (auto split: sum.splits prod.splits option.splits dest!: r1 r2 r3 r4)
       (blast intro: t d)+
qed

lemma buildTx_rel:
  assumes g: "\<And>s b b'. grows S s b b' \<Longrightarrow> R b b'"
    and d: "\<And>b. R b (applyDefaults b)"
    and t: "\<And>a b c. R a b \<Longrightarrow> R b c \<Longrightarrow> R a c"
    and eq: "buildTx E S authFunc b s n = (r, b', s', n')"
  shows "R b b'"
proof -
  have r1: "\<And>s x b b'. buildTx_checks E S authFunc s b = (x, b') \<Longrightarrow> R b b'"
    using g buildTx_checks_grows by (metis snd_conv)
  have r2: "\<And>b s n x b' s' n'. buildTx_params E S b s n = (x, b', s', n') \<Longrightarrow> R b b'"
    using g d t by (rule buildTx_params_rel)
  show ?thesis
    using eq unfolding buildTx_def
    by (auto split: prod.splits option.splits dest!: r1 r2) (blast intro: t)+
qed

subsection \<open>The retry loop, one iteration at a time\<close>

lemma InTx_Build_closure:
  "InTx S (Build_closure E S authFunc) s
     \<lparr> cap_b = b, cap_workspaceBuild = None, cap_provisionerJob = None,
       cap_err = err, cap_calls = n \<rparr> =
   (case buildTx E S authFunc b s n of
      (Inl e, b1, s1, n1) \<Rightarrow>
        (Some e,
         \<lparr> cap_b = b1, cap_workspaceBuild = None, cap_provisionerJob = None,
           cap_err = Some e, cap_calls = n1 \<rparr>, RollbackTx S s s1)
    | (Inr (wb, pj), b1, s1, n1) \<Rightarrow>
        (None,
         \<lparr> cap_b = b1, cap_workspaceBuild = Some wb, cap_provisionerJob = Some pj,
           cap_err = None, cap_calls = n1 \<rparr>, s1))"
  by (simp add: InTx_def Build_closure_def split: prod.splits sum.splits)

lemma Build_loop_step:
  assumes "retries < 5"
  shows "Build_loop E S authFunc retries b err s n =
     (case buildTx E S authFunc b s n of
        (Inl e, b1, s1, n1) \<Rightarrow>
          if As_pq e = Some ''40001'' then
            Build_loop E S authFunc (retries + 1) b1 (Some e) (RollbackTx S s s1) n1
          else ((None, None, Some e), b1, RollbackTx S s s1, n1)
      | (Inr (wb, pj), b1, s1, n1) \<Rightarrow> ((Some wb, Some pj, None), b1, s1, n1))"
proof -
  obtain r b1 s1 n1 where tx: "buildTx E S authFunc b s n = (r, b1, s1, n1)"
    by (cases "buildTx E S authFunc b s n")
  show ?thesis
  proof (cases r)
    case (Inl e)
    then show ?thesis
      using assms
      by (subst Build_loop.simps)
         (simp add: InTx_Build_closure tx is_serialization_failure_def)
  next
    case (Inr p)
    then show ?thesis
      using assms
      by (subst Build_loop.simps, cases p)
         (simp add: InTx_Build_closure tx is_serialization_failure_def)
  qed
qed

lemma Build_loop_exhausted:
  assumes "\<not> retries < 5"
  shows "Build_loop E S authFunc retries b err s n =
     ((None, None, Some (Errorf ''too many errors; last error: %w'' err)), b, s, n)"
  using assms by (subst Build_loop.simps) simp

lemma at_retry_Suc:
  "at_retry E S authFunc (Suc k) b err s n =
     (case buildTx E S authFunc b s n of
        (Inl e, b1, s1, n1) \<Rightarrow>
          if As_pq e = Some ''40001'' then
            at_retry E S authFunc k b1 (Some e) (RollbackTx S s s1) n1
          else None
      | (Inr (wb, pj), b1, s1, n1) \<Rightarrow> None)"
proof -
  obtain r b1 s1 n1 where tx: "buildTx E S authFunc b s n = (r, b1, s1, n1)"
    by (cases "buildTx E S authFunc b s n")
  show ?thesis
  proof (cases r)
    case (Inl e)
    then show ?thesis
      by (simp add: InTx_Build_closure tx is_serialization_failure_def)
  next
    case (Inr p)
    then show ?thesis
      by (cases p) (simp add: InTx_Build_closure tx is_serialization_failure_def)
  qed
qed

declare at_retry.simps(2) [simp del]


text \<open>The attempt that a successful loop ends with.\<close>

lemma Build_loop_rel:
  assumes g: "\<And>s b b'. grows S s b b' \<Longrightarrow> R b b'"
    and d: "\<And>b. R b (applyDefaults b)"
    and t: "\<And>a b c. R a b \<Longrightarrow> R b c \<Longrightarrow> R a c"
    and eq: "Build_loop E S authFunc retries b err s n = (res, b', s', n')"
  shows "R b b'"
  using eq
proof (induction "5 - retries" arbitrary: retries b err s n)
  case 0
  then have "\<not> retries < 5" by simp
  then show ?case
    using "0.prems" g [OF grows_refl] by (simp add: Build_loop_exhausted)
next
  case (Suc k)
  then have lt: "retries < 5" by simp
  obtain r b1 s1 n1 where tx: "buildTx E S authFunc b s n = (r, b1, s1, n1)"
    by (cases "buildTx E S authFunc b s n")
  have 1: "R b b1"
    using g d t tx by (rule buildTx_rel)
  show ?case
  proof (cases "\<exists>e. r = Inl e \<and> As_pq e = Some ''40001''")
    case True
    then obtain e where r: "r = Inl e" and pq: "As_pq e = Some ''40001''"
      by blast
    have "Build_loop E S authFunc (retries + 1) b1 (Some e) (RollbackTx S s s1) n1
      = (res, b', s', n')"
      using Suc.prems by (simp add: Build_loop_step [OF lt] tx r pq)
    moreover have "k = 5 - (retries + 1)"
      using Suc.hyps(2) by simp
    ultimately have "R b1 b'"
      by (rule Suc.hyps(1) [rotated])
    with 1 show ?thesis
      by (rule t)
  next
    case False
    then have "b' = b1"
      using Suc.prems by (auto simp: Build_loop_step [OF lt] tx split: sum.splits if_splits)
    with 1 show ?thesis
      by simp
  qed
qed

lemma Build_loop_success:
  assumes g: "\<And>s b b'. grows S s b b' \<Longrightarrow> R b b'"
    and d: "\<And>b. R b (applyDefaults b)"
    and t: "\<And>a b c. R a b \<Longrightarrow> R b c \<Longrightarrow> R a c"
    and eq: "Build_loop E S authFunc retries b err s n = ((Some wb, pjo, eo), b', s', n')"
  shows "\<exists>bk sk nk pj. R b bk \<and> pjo = Some pj \<and> eo = None
    \<and> buildTx E S authFunc bk sk nk = (Inr (wb, pj), b', s', n')"
  using eq
proof (induction "5 - retries" arbitrary: retries b err s n)
  case 0
  then have "\<not> retries < 5" by simp
  then show ?case
    using "0.prems" by (simp add: Build_loop_exhausted)
next
  case (Suc k)
  then have lt: "retries < 5" by simp
  obtain r b1 s1 n1 where tx: "buildTx E S authFunc b s n = (r, b1, s1, n1)"
    by (cases "buildTx E S authFunc b s n")
  have 1: "R b b1"
    using g d t tx by (rule buildTx_rel)
  have 0: "R b b"
    by (rule g [OF grows_refl])
  show ?case
  proof (cases r)
    case (Inl e)
    then have pq: "As_pq e = Some ''40001''"
      using Suc.prems by (auto simp: Build_loop_step [OF lt] tx split: if_splits)
    have "Build_loop E S authFunc (retries + 1) b1 (Some e) (RollbackTx S s s1) n1
      = ((Some wb, pjo, eo), b', s', n')"
      using Suc.prems by (simp add: Build_loop_step [OF lt] tx Inl pq)
    moreover have "k = 5 - (retries + 1)"
      using Suc.hyps(2) by simp
    ultimately obtain bk sk nk pj where "R b1 bk" "pjo = Some pj" "eo = None"
      "buildTx E S authFunc bk sk nk = (Inr (wb, pj), b', s', n')"
      using Suc.hyps(1) [of "retries + 1" b1 "Some e" "RollbackTx S s s1" n1] by blast
    with 1 t show ?thesis
      by blast
  next
    case (Inr p)
    then show ?thesis
      using Suc.prems 0 tx
      by (cases p) (auto simp: Build_loop_step [OF lt])
  qed
qed

text \<open>A loop never returns a build together with an error, nor neither.\<close>

lemma Build_loop_result:
  assumes "Build_loop E S authFunc retries b err s n = (res, b', s', n')"
  shows "(\<exists>wb pj. res = (Some wb, Some pj, None)) \<or> (\<exists>e. res = (None, None, Some e))"
  using assms
proof (induction "5 - retries" arbitrary: retries b err s n)
  case 0
  then have "\<not> retries < 5" by simp
  then show ?case
    using "0.prems" by (auto simp: Build_loop_exhausted)
next
  case (Suc k)
  then have lt: "retries < 5" by simp
  obtain r b1 s1 n1 where tx: "buildTx E S authFunc b s n = (r, b1, s1, n1)"
    by (cases "buildTx E S authFunc b s n")
  show ?case
  proof (cases "\<exists>e. r = Inl e \<and> As_pq e = Some ''40001''")
    case True
    then obtain e where r: "r = Inl e" and pq: "As_pq e = Some ''40001''"
      by blast
    have "Build_loop E S authFunc (retries + 1) b1 (Some e) (RollbackTx S s s1) n1
      = (res, b', s', n')"
      using Suc.prems by (simp add: Build_loop_step [OF lt] tx r pq)
    moreover have "k = 5 - (retries + 1)"
      using Suc.hyps(2) by simp
    ultimately show ?thesis
      by (rule Suc.hyps(1) [rotated])
  next
    case False
    then show ?thesis
      using Suc.prems by (auto simp: Build_loop_step [OF lt] tx split: sum.splits if_splits)
  qed
qed

subsection \<open>The build that a successful call inserts\<close>

lemma evolves_refl: "evolves S b b"
  by (simp add: evolves_def same_request_refl cache_kept_refl split: option.splits)

lemma grows_evolves:
  assumes "grows S s b b'"
  shows "evolves S b b'"
proof -
  have "lastBuild b = Some lb
      \<or> (\<exists>s1. GetLatestWorkspaceBuildByWorkspaceID S s1 (ws_ID (workspace b)) = Inr lb)"
    if "lastBuild b' = Some lb" for lb
    using growsD(5) [OF assms] that
    by (auto simp: coherent_def fst_getLastBuild split: option.splits)
  moreover have "template b = Some t
      \<or> (\<exists>s1. GetTemplateByID S s1 (ws_TemplateID (workspace b)) = Inr t)"
    if "template b' = Some t" for t
    using growsD(4) [OF assms] that
    by (auto simp: coherent_def fst_getTemplate split: option.splits)
  ultimately show ?thesis
    using growsD(1) [OF assms] grows_cache_kept [OF assms]
    by (simp add: evolves_def split: option.splits)
qed

lemma applyDefaults_evolves: "evolves S b (applyDefaults b)"
  using applyDefaults_same_request [of b] applyDefaults_cache_kept [of b]
  by (auto simp: evolves_def applyDefaults_def Let_def split: option.splits)

lemma evolves_trans:
  assumes ab: "evolves S a b" and bc: "evolves S b c"
  shows "evolves S a c"
proof -
  have w: "workspace b = workspace a"
    using ab by (simp add: evolves_def same_request_def)
  have "lastBuild a = Some lb
      \<or> (\<exists>s1. GetLatestWorkspaceBuildByWorkspaceID S s1 (ws_ID (workspace a)) = Inr lb)"
    if "lastBuild c = Some lb" for lb
    using ab bc that unfolding evolves_def w by (auto split: option.splits)
  moreover have "template a = Some t
      \<or> (\<exists>s1. GetTemplateByID S s1 (ws_TemplateID (workspace a)) = Inr t)"
    if "template c = Some t" for t
    using ab bc that unfolding evolves_def w by (auto split: option.splits)
  moreover have "same_request a c" "cache_kept a c"
    using ab bc by (auto simp: evolves_def intro: same_request_trans cache_kept_trans)
  ultimately show ?thesis
    by (simp add: evolves_def split: option.splits)
qed

lemma evolvesD:
  assumes "evolves S b b'"
  shows "same_request b b'" and "cache_kept b b'"
    and "lastBuild b' = Some lb \<Longrightarrow> lastBuild b = Some lb
      \<or> (\<exists>s1. GetLatestWorkspaceBuildByWorkspaceID S s1 (ws_ID (workspace b)) = Inr lb)"
    and "template b' = Some t \<Longrightarrow> template b = Some t
      \<or> (\<exists>s1. GetTemplateByID S s1 (ws_TemplateID (workspace b)) = Inr t)"
  using assms by (auto simp: evolves_def split: option.splits)

lemma cache_keptD:
  assumes "cache_kept b b'"
  shows "template b = Some t \<Longrightarrow> template b' = Some t"
    and "lastBuild b = Some lb \<Longrightarrow> lastBuild b' = Some lb"
  using assms by (auto simp: cache_kept_def kept_def)

text \<open>The build that a successful run of the inserts hands to the store.\<close>

lemma buildTx_insert_build:
  assumes eq: "buildTx_insert E S tpl tvJob b s n = (Inr (wb, pj), b', s', n')"
  shows "\<exists>p s1 s2 lb.
      InsertWorkspaceBuild S s1 p = (Inr wb, s2) \<and> lastBuild b' = Some lb
      \<and> iwb_WorkspaceID p = ws_ID (workspace b)
      \<and> iwb_BuildNumber p = wb_BuildNumber lb + 1
      \<and> iwb_ProvisionerState p = resolved_state b lb
      \<and> (case specific (version b) of
            Some v \<Rightarrow> iwb_TemplateVersionID p = v
          | None \<Rightarrow>
              if active (version b)
              then (\<exists>t. template b' = Some t \<and> iwb_TemplateVersionID p = tpl_ActiveVersionID t)
              else iwb_TemplateVersionID p = wb_TemplateVersionID lb)"
proof -
  from eq obtain s1 tvid b1 bn b2 st b3 s2 names vals where
    g1: "getTemplateVersionID S s1 b = (Inr tvid, b1)"
    and g2: "getBuildNumber S s1 b1 = (Inr bn, b2)"
    and g3: "getState S s1 b2 = (Inr st, b3)"
    and ins: "InsertWorkspaceBuild S s1
              \<lparr> iwb_ID = uuid_New E n,
                iwb_CreatedAt = database_Now E (n + 4),
                iwb_UpdatedAt = database_Now E (n + 5),
                iwb_WorkspaceID = ws_ID (workspace b3),
                iwb_TemplateVersionID = tvid,
                iwb_BuildNumber = bn,
                iwb_ProvisionerState = st,
                iwb_InitiatorID = initiator b3,
                iwb_Transition = transition b3,
                iwb_JobID = job_ID pj,
                iwb_Reason = reason b3 \<rparr> = (Inr wb, s2)"
    and g4: "getParameters E S s2 b3 = (Inr (names, vals), b')"
    by (rule buildTx_insert_InrE)
  have e1: "grows S s1 b b1"
    using getTemplateVersionID_grows [of S s1 b] g1 by simp
  have e2: "grows S s1 b1 b2"
    using getBuildNumber_grows [of S s1 b1] g2 by simp
  have e3: "grows S s1 b2 b3"
    using getState_grows [of S s1 b2] g3 by simp
  have e4: "grows S s2 b3 b'"
    using getParameters_grows [of S s2 b3 E] g4 by simp
  note k1 = grows_cache_kept [OF e1] and k2 = grows_cache_kept [OF e2]
    and k3 = grows_cache_kept [OF e3] and k4 = grows_cache_kept [OF e4]
  note q1 = growsD(1) [OF e1] and q2 = growsD(1) [OF e2] and q3 = growsD(1) [OF e3]
  have q: "same_request b b2" "same_request b b3"
    using q1 q2 q3 by (blast intro: same_request_trans)+
  from getBuildNumber_Inr [OF g2] obtain lb
    where lb2: "lastBuild b2 = Some lb" and bn: "bn = wb_BuildNumber lb + 1"
    by blast
  have lb3: "lastBuild b3 = Some lb"
    using cache_keptD(2) [OF k3 lb2] .
  have lb': "lastBuild b' = Some lb"
    using cache_keptD(2) [OF k4 lb3] .
  have st: "st = resolved_state b lb"
    using getState_Inr [OF g3] lb3 same_requestD(4) [OF q(1)]
    by (auto simp: resolved_state_def split: option.splits if_splits)
  have tv: "case specific (version b) of
            Some v \<Rightarrow> tvid = v
          | None \<Rightarrow>
              if active (version b)
              then (\<exists>t. template b' = Some t \<and> tvid = tpl_ActiveVersionID t)
              else tvid = wb_TemplateVersionID lb"
  proof (cases "specific (version b)")
    case (Some v)
    then show ?thesis
      using getTemplateVersionID_Inr [OF g1] by simp
  next
    case None
    show ?thesis
    proof (cases "active (version b)")
      case True
      then obtain t where t1: "template b1 = Some t" and tvid: "tvid = tpl_ActiveVersionID t"
        using getTemplateVersionID_Inr [OF g1] None by auto
      have "template b' = Some t"
        using cache_keptD(1) [OF k4 cache_keptD(1) [OF k3 cache_keptD(1) [OF k2 t1]]] .
      then show ?thesis
        using None True tvid by simp
    next
      case False
      then obtain x where x1: "lastBuild b1 = Some x" and tvid: "tvid = wb_TemplateVersionID x"
        using getTemplateVersionID_Inr [OF g1] None by auto
      have "lastBuild b2 = Some x"
        using cache_keptD(2) [OF k2 x1] .
      then have "x = lb"
        using lb2 by simp
      then show ?thesis
        using None False tvid by simp
    qed
  qed
  show ?thesis
    using ins lb' bn st tv same_requestD(1) [OF q(2)]
    by (intro exI [of _ "\<lparr> iwb_ID = uuid_New E n,
                iwb_CreatedAt = database_Now E (n + 4),
                iwb_UpdatedAt = database_Now E (n + 5),
                iwb_WorkspaceID = ws_ID (workspace b3),
                iwb_TemplateVersionID = tvid,
                iwb_BuildNumber = bn,
                iwb_ProvisionerState = st,
                iwb_InitiatorID = initiator b3,
                iwb_Transition = transition b3,
                iwb_JobID = job_ID pj,
                iwb_Reason = reason b3 \<rparr>"] exI [of _ s1] exI [of _ s2] exI [of _ lb])
       (simp split: option.splits)
qed

lemma buildTx_InrE:
  assumes eq: "buildTx E S authFunc b s n = (Inr (wb, pj), b', s', n')"
  obtains tpl tvJob bI sI nI where "same_request b bI"
    and "buildTx_insert E S tpl tvJob bI sI nI = (Inr (wb, pj), b', s', n')"
proof -
  from eq obtain b1 where c: "buildTx_checks E S authFunc s b = (None, b1)"
    and p: "buildTx_params E S b1 s n = (Inr (wb, pj), b', s', n')"
    by (auto simp: buildTx_def split: prod.splits option.splits)
  from p obtain tpl b2 tvJob b3 legacy b4 sI nI
    where g1: "getTemplate S s b1 = (Inr tpl, b2)"
      and g2: "getTemplateVersionJob S s b2 = (Inr tvJob, b3)"
      and g3: "getLastParameterValues S s b3 = (Inr legacy, b4)"
      and ins: "buildTx_insert E S tpl tvJob (applyDefaults b4) sI nI
        = (Inr (wb, pj), b', s', n')"
    unfolding buildTx_params_def Let_def
    by (auto split: prod.splits sum.splits option.splits)
  have "same_request b b1"
    using buildTx_checks_grows [of S s b E authFunc] c by (auto dest: growsD(1))
  moreover have "same_request b1 b2"
    using getTemplate_grows [of S s b1] g1 by (auto dest: growsD(1))
  moreover have "same_request b2 b3"
    using getTemplateVersionJob_grows [of S s b2] g2 by (auto dest: growsD(1))
  moreover have "same_request b3 b4"
    using getLastParameterValues_grows [of S s b3] g3 by (auto dest: growsD(1))
  moreover note applyDefaults_same_request [of b4]
  ultimately have "same_request b (applyDefaults b4)"
    by (blast intro: same_request_trans)
  then show ?thesis
    using ins by (rule that)
qed

lemma buildTx_evolves:
  assumes "buildTx E S authFunc b s n = (r, b', s', n')"
  shows "evolves S b b'"
  using grows_evolves applyDefaults_evolves evolves_trans assms
  by (rule buildTx_rel [where R = "evolves S"])

lemma resolved_state_same: "same_request b b' \<Longrightarrow> resolved_state b' lb = resolved_state b lb"
  by (simp add: resolved_state_def same_request_def)

text \<open>The build that a successful call hands to the store, in terms of the request and
  of where the cached last build and template come from.\<close>

lemma Build_build:
  assumes eq: "fst (Build E b c S s authFunc n) = (Some wb, pjo, eo)"
  shows "\<exists>p s1 s2 lb.
      InsertWorkspaceBuild S s1 p = (Inr wb, s2)
      \<and> iwb_WorkspaceID p = ws_ID (workspace b)
      \<and> (lastBuild b = Some lb
          \<or> (\<exists>s3. GetLatestWorkspaceBuildByWorkspaceID S s3 (ws_ID (workspace b)) = Inr lb))
      \<and> iwb_BuildNumber p = wb_BuildNumber lb + 1
      \<and> iwb_ProvisionerState p = resolved_state b lb
      \<and> (case specific (version b) of
            Some v \<Rightarrow> iwb_TemplateVersionID p = v
          | None \<Rightarrow>
              if active (version b)
              then (\<exists>t. (template b = Some t
                          \<or> (\<exists>s3. GetTemplateByID S s3 (ws_TemplateID (workspace b)) = Inr t))
                        \<and> iwb_TemplateVersionID p = tpl_ActiveVersionID t)
              else iwb_TemplateVersionID p = wb_TemplateVersionID lb)"
proof -
  let ?b0 = "b\<lparr> ctx := c \<rparr>"
  obtain b' s' n' where
    "Build_loop E S authFunc 0 ?b0 None s n = ((Some wb, pjo, eo), b', s', n')"
    using eq by (cases "Build_loop E S authFunc 0 ?b0 None s n") (auto simp: Build_def)
  with grows_evolves applyDefaults_evolves evolves_trans
  have "\<exists>bk sk nk pj. evolves S ?b0 bk \<and> pjo = Some pj \<and> eo = None
    \<and> buildTx E S authFunc bk sk nk = (Inr (wb, pj), b', s', n')"
    by (rule Build_loop_success [where R = "evolves S"])
  then obtain bk sk nk pj where ek: "evolves S ?b0 bk"
    and tx: "buildTx E S authFunc bk sk nk = (Inr (wb, pj), b', s', n')"
    by blast
  from tx obtain tpl tvJob bI sI nI where qI: "same_request bk bI"
    and ins: "buildTx_insert E S tpl tvJob bI sI nI = (Inr (wb, pj), b', s', n')"
    by (rule buildTx_InrE)
  have q: "same_request ?b0 bI"
    using evolvesD(1) [OF ek] qI by (rule same_request_trans)
  have e': "evolves S ?b0 b'"
    using ek buildTx_evolves [OF tx] by (rule evolves_trans)
  from buildTx_insert_build [OF ins] obtain p s1 s2 lb where
    i: "InsertWorkspaceBuild S s1 p = (Inr wb, s2)" and lb': "lastBuild b' = Some lb"
    and w: "iwb_WorkspaceID p = ws_ID (workspace bI)"
    and bn: "iwb_BuildNumber p = wb_BuildNumber lb + 1"
    and st: "iwb_ProvisionerState p = resolved_state bI lb"
    and tv: "case specific (version bI) of
            Some v \<Rightarrow> iwb_TemplateVersionID p = v
          | None \<Rightarrow>
              if active (version bI)
              then (\<exists>t. template b' = Some t \<and> iwb_TemplateVersionID p = tpl_ActiveVersionID t)
              else iwb_TemplateVersionID p = wb_TemplateVersionID lb"
    by blast
  have origin: "lastBuild b = Some lb
      \<or> (\<exists>s3. GetLatestWorkspaceBuildByWorkspaceID S s3 (ws_ID (workspace b)) = Inr lb)"
    using evolvesD(3) [OF e' lb'] by simp
  have st': "iwb_ProvisionerState p = resolved_state b lb"
    using st resolved_state_same [OF q, of lb] by (simp add: resolved_state_def)
  have tv': "case specific (version b) of
            Some v \<Rightarrow> iwb_TemplateVersionID p = v
          | None \<Rightarrow>
              if active (version b)
              then (\<exists>t. (template b = Some t
                          \<or> (\<exists>s3. GetTemplateByID S s3 (ws_TemplateID (workspace b)) = Inr t))
                        \<and> iwb_TemplateVersionID p = tpl_ActiveVersionID t)
              else iwb_TemplateVersionID p = wb_TemplateVersionID lb"
  proof (cases "specific (version b)")
    case (Some v)
    then show ?thesis
      using tv same_requestD(3) [OF q] by simp
  next
    case None
    show ?thesis
    proof (cases "active (version b)")
      case True
      then obtain t where t: "template b' = Some t"
        and tvid: "iwb_TemplateVersionID p = tpl_ActiveVersionID t"
        using tv None same_requestD(3) [OF q] by auto
      have "template b = Some t
          \<or> (\<exists>s3. GetTemplateByID S s3 (ws_TemplateID (workspace b)) = Inr t)"
        using evolvesD(4) [OF e' t] by simp
      then show ?thesis
        using None True tvid by auto
    next
      case False
      then show ?thesis
        using tv None same_requestD(3) [OF q] by simp
    qed
  qed
  have w': "iwb_WorkspaceID p = ws_ID (workspace b)"
    using w same_requestD(1) [OF q] by simp
  show ?thesis
    using i w' origin bn st' tv' by blast
qed

subsection \<open>Failing attempts\<close>

lemma fst_authorize:
  assumes "required_action (transition b) = Some action"
  shows "fst (authorize S s E f b) =
     (if \<not> f action (ObjWorkspace (workspace b)) then
        Some (BuildError StatusNotFound (Str (ResourceNotFoundResponse_Message E)) (New []))
      else
        (case fst (getTemplate S s b) of
           Inl err \<Rightarrow>
             Some (BuildError StatusInternalServerError (Str ''failed to fetch template'')
                     (External err))
         | Inr t \<Rightarrow>
             if (explicit (state b) \<noteq> None \<or> orphan (state b))
                \<and> \<not> f ActionUpdate (ObjTemplateRBACObject t) then
               Some (BuildError StatusForbidden
                       (Str ''Only template managers may provide custom state'') (New []))
             else if logLevel b \<noteq> [] \<and> \<not> f ActionUpdate (ObjTemplate t) then
               Some (BuildError StatusBadRequest
                       (Str ''Workspace builds with a custom log level are restricted to template authors only.'')
                       (New []))
             else None))"
proof -
  obtain r b1 where g: "getTemplate S s b = (r, b1)"
    by (cases "getTemplate S s b")
  have q: "same_request b b1"
    using getTemplate_grows [of S s b] g by (auto dest: growsD(1))
  show ?thesis
    using assms same_requestD(4,5) [OF q]
    by (cases "transition b"; cases r) (simp_all add: authorize_def g)
qed

lemma authorize_unsupported:
  assumes "required_action (transition b) = None"
  shows "\<exists>t. fst (authorize S s E f b) =
     Some (BuildError StatusBadRequest (Sprintf ''Transition %q not supported.'' [t]) (New []))"
  using assms by (cases "transition b") (simp_all add: authorize_def)

text \<open>The context of the call has no part in the reads and the checks.\<close>

lemma ctx_getTemplate: "fst (getTemplate S s (b\<lparr> ctx := c \<rparr>)) = fst (getTemplate S s b)"
  by (simp add: fst_getTemplate split: option.splits)

lemma ctx_getLastBuild: "fst (getLastBuild S s (b\<lparr> ctx := c \<rparr>)) = fst (getLastBuild S s b)"
  by (simp add: fst_getLastBuild split: option.splits)

lemma ctx_getTemplateVersionID:
  "fst (getTemplateVersionID S s (b\<lparr> ctx := c \<rparr>)) = fst (getTemplateVersionID S s b)"
  unfolding fst_getTemplateVersionID ctx_getTemplate ctx_getLastBuild by simp

lemma ctx_getTemplateVersion:
  "fst (getTemplateVersion S s (b\<lparr> ctx := c \<rparr>)) = fst (getTemplateVersion S s b)"
  unfolding fst_getTemplateVersion ctx_getTemplateVersionID by simp

lemma ctx_getTemplateVersionJob:
  "fst (getTemplateVersionJob S s (b\<lparr> ctx := c \<rparr>)) = fst (getTemplateVersionJob S s b)"
  unfolding fst_getTemplateVersionJob ctx_getTemplateVersion by simp

lemma ctx_getLastBuildJob:
  "fst (getLastBuildJob S s (b\<lparr> ctx := c \<rparr>)) = fst (getLastBuildJob S s b)"
  unfolding fst_getLastBuildJob ctx_getLastBuild by simp

lemma ctx_authorize:
  "fst (authorize S s E f (b\<lparr> ctx := c \<rparr>)) = fst (authorize S s E f b)"
proof (cases "required_action (transition b)")
  case None
  then show ?thesis
    by (cases "transition b") (simp_all add: authorize_def)
next
  case (Some a)
  then have a: "required_action (transition (b\<lparr> ctx := c \<rparr>)) = Some a"
    by simp
  show ?thesis
    unfolding fst_authorize [OF Some] fst_authorize [OF a] ctx_getTemplate
    by (simp split: sum.splits)
qed

lemma ctx_authorize_opt:
  "fst (authorize_opt S s E authFunc (b\<lparr> ctx := c \<rparr>)) = fst (authorize_opt S s E authFunc b)"
  by (simp add: authorize_opt_def ctx_authorize split: option.splits)

lemma ctx_buildTx_checks:
  "fst (buildTx_checks E S authFunc s (b\<lparr> ctx := c \<rparr>)) = fst (buildTx_checks E S authFunc s b)"
  unfolding fst_buildTx_checks fst_checkTemplateVersionMatchesTemplate
    fst_checkTemplateJobStatus fst_checkRunningBuild ctx_authorize_opt ctx_getTemplate
    ctx_getTemplateVersion ctx_getTemplateVersionJob ctx_getLastBuildJob
  by (rule refl)

text \<open>An attempt that fails in the checks has written nothing.\<close>

lemma buildTx_checks_fail:
  assumes "fst (buildTx_checks E S authFunc s b) = Some e"
  shows "\<exists>b'. buildTx E S authFunc b s n = (Inl e, b', s, n)"
  using assms by (cases "buildTx_checks E S authFunc s b") (simp add: buildTx_def)

lemma Build_checks_fail:
  assumes "fst (buildTx_checks E S authFunc s b) = Some e"
    and "As_pq e \<noteq> Some ''40001''"
  shows "\<exists>b'. Build E b c S s authFunc n = ((None, None, Some e), b', RollbackTx S s s, n)"
proof -
  have "fst (buildTx_checks E S authFunc s (b\<lparr> ctx := c \<rparr>)) = Some e"
    using assms(1) by (simp add: ctx_buildTx_checks)
  then have "\<exists>b'. buildTx E S authFunc (b\<lparr> ctx := c \<rparr>) s n = (Inl e, b', s, n)"
    by (rule buildTx_checks_fail)
  then obtain b' where "buildTx E S authFunc (b\<lparr> ctx := c \<rparr>) s n = (Inl e, b', s, n)"
    by blast
  then show ?thesis
    using assms(2) by (simp add: Build_def Build_loop_step)
qed

text \<open>Without a prior build and without a Builder seeded with one, every attempt fails
  in the checks.\<close>

lemma no_prior_build_attempt:
  assumes lb: "lastBuild b = None" and lj: "lastBuildJob b = None"
    and nf: "GetLatestWorkspaceBuildByWorkspaceID S s (ws_ID (workspace b)) = Inl e"
  shows "\<exists>err b'. buildTx E S authFunc b s n = (Inl err, b', s, n)
    \<and> lastBuild b' = None \<and> lastBuildJob b' = None \<and> workspace b' = workspace b"
proof -
  have j: "fst (getLastBuildJob S s b) = Inl e"
    by (simp add: fst_getLastBuildJob fst_getLastBuild lb lj nf)
  have l: "fst (getLastBuild S s b) = Inl e"
    by (simp add: fst_getLastBuild lb nf)
  obtain r b1 where c: "buildTx_checks E S authFunc s b = (r, b1)"
    by (cases "buildTx_checks E S authFunc s b")
  have "fst (checkRunningBuild S s E b) \<noteq> None"
    by (simp add: fst_checkRunningBuild j)
  then have "r \<noteq> None"
    using c fst_buildTx_checks [of E S authFunc s b] by (auto split: option.splits)
  then obtain err where r: "r = Some err"
    by blast
  have g: "grows S s b b1"
    using buildTx_checks_grows [of S s b E authFunc] c by simp
  have "lastBuild b1 = None"
    using growsD(5) [OF g] l by (auto simp: coherent_def split: option.splits)
  moreover have "lastBuildJob b1 = None"
    using growsD(8) [OF g] j by (auto simp: coherent_def split: option.splits)
  moreover have "workspace b1 = workspace b"
    using same_requestD(1) [OF growsD(1) [OF g]] .
  ultimately show ?thesis
    by (simp add: buildTx_def c r)
qed

lemma no_prior_build_loop:
  assumes "lastBuild b = None" and "lastBuildJob b = None"
    and "GetLatestWorkspaceBuildByWorkspaceID S s (ws_ID (workspace b)) = Inl e"
    and rb: "RollbackTx S s s = s"
  shows "\<exists>err. fst (Build_loop E S authFunc retries b err0 s n) = (None, None, Some err)"
  using assms(1-3)
proof (induction "5 - retries" arbitrary: retries b err0 n)
  case 0
  then have "\<not> retries < 5" by simp
  then show ?case
    by (simp add: Build_loop_exhausted)
next
  case (Suc k)
  then have lt: "retries < 5" by simp
  from no_prior_build_attempt [OF Suc.prems, of E authFunc n]
  obtain err b' where tx: "buildTx E S authFunc b s n = (Inl err, b', s, n)"
    and b': "lastBuild b' = None" "lastBuildJob b' = None" "workspace b' = workspace b"
    by blast
  show ?case
  proof (cases "As_pq err = Some ''40001''")
    case True
    have "k = 5 - (retries + 1)"
      using Suc.hyps(2) by simp
    then have "\<exists>x. fst (Build_loop E S authFunc (retries + 1) b' (Some err) s n)
        = (None, None, Some x)"
      using b' Suc.prems(3) by (intro Suc.hyps(1)) simp_all
    then show ?thesis
      by (simp add: Build_loop_step [OF lt] tx True rb)
  next
    case False
    then show ?thesis
      by (simp add: Build_loop_step [OF lt] tx)
  qed
qed

subsection \<open>The selectors of a configured Builder\<close>

text \<open>The state selector of a configured Builder is the default, orphan, or an explicit
  state, and never orphan together with an explicit state; the version selector is the
  default, active, or a specific id.\<close>

lemma configured_state:
  assumes "configured b"
  shows "state b = \<lparr> orphan = False, explicit = None \<rparr>
    \<or> state b = \<lparr> orphan = True, explicit = None \<rparr>
    \<or> (\<exists>blob. state b = \<lparr> orphan = False, explicit = Some blob \<rparr>)"
  using assms
  by (induction rule: configured.induct)
     (simp_all add: New_Builder_def VersionID_def ActiveVersion_def State_def Orphan_def
        LogLevel_def Initiator_def Reason_def LegacyParameterValues_def
        RichParameterValues_def SetLastWorkspaceBuildInTx_def SetLastWorkspaceBuildJobInTx_def)

lemma configured_version:
  assumes "configured b"
  shows "version b = \<lparr> active = False, specific = None \<rparr>
    \<or> version b = \<lparr> active = True, specific = None \<rparr>
    \<or> (\<exists>v. version b = \<lparr> active = False, specific = Some v \<rparr>)"
  using assms
  by (induction rule: configured.induct)
     (simp_all add: New_Builder_def VersionID_def ActiveVersion_def State_def Orphan_def
        LogLevel_def Initiator_def Reason_def LegacyParameterValues_def
        RichParameterValues_def SetLastWorkspaceBuildInTx_def SetLastWorkspaceBuildJobInTx_def)

subsection \<open>The loop variables across attempts\<close>

lemma buildTx_Inr_checks:
  assumes "fst (buildTx E S authFunc b s n) = Inr x"
  shows "fst (buildTx_checks E S authFunc s b) = None"
  using assms by (auto simp: buildTx_def split: prod.splits option.splits)

lemma at_retry_snoc:
  "at_retry E S authFunc (Suc k) b err s n =
     (case at_retry E S authFunc k b err s n of
        None \<Rightarrow> None
      | Some (bk, ek, sk, nk) \<Rightarrow> at_retry E S authFunc (Suc 0) bk ek sk nk)"
proof (induction k arbitrary: b err s n)
  case 0
  show ?case by simp
next
  case (Suc k)
  obtain r b1 s1 n1 where tx: "buildTx E S authFunc b s n = (r, b1, s1, n1)"
    by (cases "buildTx E S authFunc b s n")
  show ?case
  proof (cases "\<exists>e. r = Inl e \<and> As_pq e = Some ''40001''")
    case True
    then obtain e where r: "r = Inl e" and pq: "As_pq e = Some ''40001''"
      by blast
    show ?thesis
      using Suc.IH [of b1 "Some e" "RollbackTx S s s1" n1]
      by (simp add: at_retry_Suc [of E S authFunc "Suc k" b] at_retry_Suc [of E S authFunc k b]
          tx r pq)
  next
    case False
    then show ?thesis
      by (cases r)
         (auto simp: at_retry_Suc [of E S authFunc "Suc k" b] at_retry_Suc [of E S authFunc k b]
           tx)
  qed
qed

lemma at_retry_one:
  assumes "at_retry E S authFunc (Suc 0) b err s n = Some (b', err', s', n')"
  shows "\<exists>e s1. buildTx E S authFunc b s n = (Inl e, b', s1, n') \<and> As_pq e = Some ''40001''
    \<and> err' = Some e \<and> s' = RollbackTx S s s1"
  using assms unfolding at_retry_Suc
  by (auto split: prod.splits sum.splits if_splits)


lemma at_retry_evolves:
  assumes "at_retry E S authFunc k b err s n = Some (bk, ek, sk, nk)"
  shows "evolves S b bk"
  using assms
proof (induction k arbitrary: bk ek sk nk)
  case 0
  then show ?case by (simp add: evolves_refl)
next
  case (Suc k)
  from Suc.prems obtain bj ej sj nj
    where j: "at_retry E S authFunc k b err s n = Some (bj, ej, sj, nj)"
      and one: "at_retry E S authFunc (Suc 0) bj ej sj nj = Some (bk, ek, sk, nk)"
    unfolding at_retry_snoc [of E S authFunc k] by (auto split: option.splits)
  from at_retry_one [OF one] obtain e s1
    where "buildTx E S authFunc bj sj nj = (Inl e, bk, s1, nk)"
    by blast
  then have "evolves S bj bk"
    by (rule buildTx_evolves)
  with Suc.IH [OF j] show ?case
    by (rule evolves_trans)
qed

section \<open>The claims\<close>

subsection \<open>C1: Build numbers\<close>




subsection \<open>C2: An active build\<close>

text \<open>
  C2 (as amended). When the job of the last build, as the Builder resolves it, is active
  (pending or running), the attempt fails before any write: the transaction state and
  the count of generated ids are unchanged. When the authorization and the two checks of
  the template version, which run first, pass, \<^verbatim>\<open>Build\<close> returns the conflict error with
  status 409 and the message \<^verbatim>\<open>A workspace build is already active.\<close>, and the store is
  that of the rolled-back transaction that wrote nothing.
\<close>

theorem active_build_conflict:
  assumes j: "fst (getLastBuildJob S s b) = Inr job"
    and a: "Active (ConvertProvisionerJobStatus E job)"
  shows "(\<exists>e b'. buildTx E S authFunc (b\<lparr> ctx := c \<rparr>) s n = (Inl e, b', s, n))
    \<and> (fst (authorize_opt S s E authFunc b) = None
        \<longrightarrow> fst (checkTemplateVersionMatchesTemplate S s b) = None
        \<longrightarrow> fst (checkTemplateJobStatus S s E b) = None
        \<longrightarrow> (\<exists>b'. Build E b c S s authFunc n
              = ((None, None,
                  Some (BuildError 409 (Str ''A workspace build is already active.'') (New []))),
                 b', RollbackTx S s s, n)))"
proof (intro conjI impI)
  have r: "fst (checkRunningBuild S s E b)
      = Some (BuildError 409 (Str ''A workspace build is already active.'') (New []))"
    by (simp add: fst_checkRunningBuild j a StatusConflict_def)
  then have "fst (buildTx_checks E S authFunc s b) \<noteq> None"
    by (simp add: fst_buildTx_checks split: option.splits)
  then obtain e where "fst (buildTx_checks E S authFunc s (b\<lparr> ctx := c \<rparr>)) = Some e"
    by (auto simp: ctx_buildTx_checks)
  then have "\<exists>b'. buildTx E S authFunc (b\<lparr> ctx := c \<rparr>) s n = (Inl e, b', s, n)"
    by (rule buildTx_checks_fail)
  then show "\<exists>e b'. buildTx E S authFunc (b\<lparr> ctx := c \<rparr>) s n = (Inl e, b', s, n)"
    by blast
  assume "fst (authorize_opt S s E authFunc b) = None"
    "fst (checkTemplateVersionMatchesTemplate S s b) = None"
    "fst (checkTemplateJobStatus S s E b) = None"
  then have "fst (buildTx_checks E S authFunc s b)
      = Some (BuildError 409 (Str ''A workspace build is already active.'') (New []))"
    by (simp add: fst_buildTx_checks r)
  from Build_checks_fail [OF this, of c n]
  show "\<exists>b'. Build E b c S s authFunc n
      = ((None, None,
          Some (BuildError 409 (Str ''A workspace build is already active.'') (New []))),
         b', RollbackTx S s s, n)"
    by simp
qed

text \<open>The theorem on the in-memory store with a running job of the last build.\<close>

theorem active_build_conflict_witness:
  "fst (getLastBuildJob memStore (memDB job30 job31_running [build40] 0) builder1)
     = Inr job31_running
   \<and> Active (ConvertProvisionerJobStatus memEnv job31_running)
   \<and> fst (authorize_opt memStore (memDB job30 job31_running [build40] 0) memEnv
        (Some allowAll) builder1) = None
   \<and> fst (checkTemplateVersionMatchesTemplate memStore
        (memDB job30 job31_running [build40] 0) builder1) = None
   \<and> fst (checkTemplateJobStatus memStore (memDB job30 job31_running [build40] 0) memEnv
        builder1) = None
   \<and> (\<exists>b'. Build memEnv builder1 0 memStore (memDB job30 job31_running [build40] 0)
          (Some allowAll) 0
        = ((None, None,
            Some (BuildError 409 (Str ''A workspace build is already active.'') (New []))),
           b', memDB job30 job31_running [build40] 0, 0))"
proof -
  have j: "fst (getLastBuildJob memStore (memDB job30 job31_running [build40] 0) builder1)
     = Inr job31_running"
    by code_simp
  have a: "Active (ConvertProvisionerJobStatus memEnv job31_running)"
    by code_simp
  have c: "fst (authorize_opt memStore (memDB job30 job31_running [build40] 0) memEnv
        (Some allowAll) builder1) = None"
    "fst (checkTemplateVersionMatchesTemplate memStore
        (memDB job30 job31_running [build40] 0) builder1) = None"
    "fst (checkTemplateJobStatus memStore (memDB job30 job31_running [build40] 0) memEnv
        builder1) = None"
    by code_simp+
  have rb: "RollbackTx memStore (memDB job30 job31_running [build40] 0)
      (memDB job30 job31_running [build40] 0) = memDB job30 job31_running [build40] 0"
    by code_simp
  from active_build_conflict [OF j a, of "Some allowAll" 0 0, THEN conjunct2, rule_format, OF c]
  show ?thesis
    using j a c by (simp add: rb)
qed

text \<open>C2 as stated fails: with an active job of the last build and a version selector
  that names a version of no template, \<^verbatim>\<open>Build\<close> returns a bad request, not the
  conflict.\<close>

theorem active_build_other_error:
  "fst (Build memEnv (VersionID 21 builder1) 0 memStore
      (memDB job30 job31_running [build40] 0) None 0)
     = (None, None,
        Some (BuildError StatusBadRequest (Str ''template version doesn't match template'')
                (New ''templateVersion.TemplateID = %s, template.ID = %s'')))
   \<and> fst (getLastBuildJob memStore (memDB job30 job31_running [build40] 0)
        (VersionID 21 builder1)) = Inr job31_running
   \<and> Active (ConvertProvisionerJobStatus memEnv job31_running)
   \<and> StatusBadRequest \<noteq> StatusConflict"
  by code_simp

subsection \<open>C3: The retry policy\<close>



subsection \<open>C4: The provisioner state\<close>



subsection \<open>C5: Template version and template\<close>

text \<open>
  C5 (as amended). When the resolved template version has no template id or one that
  differs from the id of the workspace's template, the attempt fails before any write,
  and no version is substituted. When the authorization passes or no authorization
  function is given, \<^verbatim>\<open>Build\<close> returns the bad request with status 400 and the message
  \<^verbatim>\<open>template version doesn't match template\<close>.
\<close>

theorem version_template_mismatch:
  assumes t: "fst (getTemplate S s b) = Inr t"
    and tv: "fst (getTemplateVersion S s b) = Inr tv"
    and m: "\<not> Valid (tv_TemplateID tv) \<or> UUID (tv_TemplateID tv) \<noteq> tpl_ID t"
  shows "(\<exists>e b'. buildTx E S authFunc (b\<lparr> ctx := c \<rparr>) s n = (Inl e, b', s, n))
    \<and> (fst (authorize_opt S s E authFunc b) = None
        \<longrightarrow> (\<exists>b'. Build E b c S s authFunc n
              = ((None, None,
                  Some (BuildError 400 (Str ''template version doesn't match template'')
                          (New ''templateVersion.TemplateID = %s, template.ID = %s''))),
                 b', RollbackTx S s s, n)))"
proof (intro conjI impI)
  have r: "fst (checkTemplateVersionMatchesTemplate S s b)
      = Some (BuildError 400 (Str ''template version doesn't match template'')
                (New ''templateVersion.TemplateID = %s, template.ID = %s''))"
    using m by (simp add: fst_checkTemplateVersionMatchesTemplate t tv StatusBadRequest_def)
  then have "fst (buildTx_checks E S authFunc s b) \<noteq> None"
    by (simp add: fst_buildTx_checks split: option.splits)
  then obtain e where "fst (buildTx_checks E S authFunc s (b\<lparr> ctx := c \<rparr>)) = Some e"
    by (auto simp: ctx_buildTx_checks)
  then have "\<exists>b'. buildTx E S authFunc (b\<lparr> ctx := c \<rparr>) s n = (Inl e, b', s, n)"
    by (rule buildTx_checks_fail)
  then show "\<exists>e b'. buildTx E S authFunc (b\<lparr> ctx := c \<rparr>) s n = (Inl e, b', s, n)"
    by blast
  assume "fst (authorize_opt S s E authFunc b) = None"
  then have "fst (buildTx_checks E S authFunc s b)
      = Some (BuildError 400 (Str ''template version doesn't match template'')
                (New ''templateVersion.TemplateID = %s, template.ID = %s''))"
    by (simp add: fst_buildTx_checks r)
  from Build_checks_fail [OF this, of c n]
  show "\<exists>b'. Build E b c S s authFunc n
      = ((None, None,
          Some (BuildError 400 (Str ''template version doesn't match template'')
                  (New ''templateVersion.TemplateID = %s, template.ID = %s''))),
         b', RollbackTx S s s, n)"
    by simp
qed

text \<open>The theorem on the in-memory store with the version 21, which belongs to no
  template.\<close>

theorem version_template_mismatch_witness:
  "fst (getTemplate memStore (memDB job30 job31 [build40] 0) (VersionID 21 builder1)) = Inr tpl10
   \<and> fst (getTemplateVersion memStore (memDB job30 job31 [build40] 0) (VersionID 21 builder1))
     = Inr tv21
   \<and> \<not> Valid (tv_TemplateID tv21)
   \<and> fst (authorize_opt memStore (memDB job30 job31 [build40] 0) memEnv (Some allowAll)
        (VersionID 21 builder1)) = None
   \<and> (\<exists>b'. Build memEnv (VersionID 21 builder1) 0 memStore (memDB job30 job31 [build40] 0)
          (Some allowAll) 0
        = ((None, None,
            Some (BuildError 400 (Str ''template version doesn't match template'')
                    (New ''templateVersion.TemplateID = %s, template.ID = %s''))),
           b', memDB job30 job31 [build40] 0, 0))"
proof -
  have t: "fst (getTemplate memStore (memDB job30 job31 [build40] 0) (VersionID 21 builder1))
     = Inr tpl10"
    by code_simp
  have tv: "fst (getTemplateVersion memStore (memDB job30 job31 [build40] 0)
      (VersionID 21 builder1)) = Inr tv21"
    by code_simp
  have m: "\<not> Valid (tv_TemplateID tv21) \<or> UUID (tv_TemplateID tv21) \<noteq> tpl_ID tpl10"
    by code_simp
  have nv: "\<not> Valid (tv_TemplateID tv21)"
    by code_simp
  have c: "fst (authorize_opt memStore (memDB job30 job31 [build40] 0) memEnv (Some allowAll)
        (VersionID 21 builder1)) = None"
    by code_simp
  have rb: "RollbackTx memStore (memDB job30 job31 [build40] 0)
      (memDB job30 job31 [build40] 0) = memDB job30 job31 [build40] 0"
    by code_simp
  from version_template_mismatch [OF t tv m, of memEnv "Some allowAll" 0 0, THEN conjunct2,
      rule_format, OF c]
  show ?thesis
    using t tv nv c by (simp add: rb)
qed

text \<open>C5 as stated fails: for a caller whom the authorization function denies the
  workspace, the same request is answered with status 404, not with the bad request.\<close>

theorem mismatch_unauthorized_not_found:
  "fst (Build memEnv (VersionID 21 builder1) 0 memStore (memDB job30 job31 [build40] 0)
      (Some denyAll) 0)
     = (None, None, Some (BuildError StatusNotFound (Str ''Resource not found'') (New [])))
   \<and> fst (getTemplateVersion memStore (memDB job30 job31 [build40] 0) (VersionID 21 builder1))
     = Inr tv21
   \<and> \<not> Valid (tv_TemplateID tv21)
   \<and> StatusNotFound \<noteq> StatusBadRequest"
  by code_simp

subsection \<open>C6: The template version id\<close>

text \<open>
  C6. The template version id that \<^verbatim>\<open>getTemplateVersionID\<close> resolves follows the version
  selector in this order: a specific id is used as given; otherwise, when active is
  configured, the \<^verbatim>\<open>ActiveVersionID\<close> of the template; otherwise the
  \<^verbatim>\<open>TemplateVersionID\<close> of the last build (an error of the read that is needed is passed
  on). A successful \<^verbatim>\<open>Build\<close> hands the store a new WorkspaceBuild with the id so
  resolved, the template and the last build being those of the Builder's cache or read
  from the store.
\<close>

theorem template_version_precedence:
  "fst (getTemplateVersionID S s b) =
     (case specific (version b) of
        Some v \<Rightarrow> Inr v
      | None \<Rightarrow>
          if active (version b) then
            (case fst (getTemplate S s b) of
               Inl err \<Rightarrow> Inl err
             | Inr t \<Rightarrow> Inr (tpl_ActiveVersionID t))
          else
            (case fst (getLastBuild S s b) of
               Inl err \<Rightarrow> Inl err
             | Inr lb \<Rightarrow> Inr (wb_TemplateVersionID lb)))
   \<and> (\<forall>wb pjo eo.
        fst (Build E b c S s authFunc n) = (Some wb, pjo, eo)
        \<longrightarrow> (\<exists>p s1 s2.
              InsertWorkspaceBuild S s1 p = (Inr wb, s2)
              \<and> iwb_WorkspaceID p = ws_ID (workspace b)
              \<and> (case specific (version b) of
                    Some v \<Rightarrow> iwb_TemplateVersionID p = v
                  | None \<Rightarrow>
                      if active (version b) then
                        (\<exists>t. (template b = Some t
                               \<or> (\<exists>s3. GetTemplateByID S s3 (ws_TemplateID (workspace b))
                                          = Inr t))
                             \<and> iwb_TemplateVersionID p = tpl_ActiveVersionID t)
                      else
                        (\<exists>lb. (lastBuild b = Some lb
                                \<or> (\<exists>s3. GetLatestWorkspaceBuildByWorkspaceID S s3
                                           (ws_ID (workspace b)) = Inr lb))
                              \<and> iwb_TemplateVersionID p = wb_TemplateVersionID lb))))"
proof (intro conjI allI impI)
  show "fst (getTemplateVersionID S s b) =
     (case specific (version b) of
        Some v \<Rightarrow> Inr v
      | None \<Rightarrow>
          if active (version b) then
            (case fst (getTemplate S s b) of
               Inl err \<Rightarrow> Inl err
             | Inr t \<Rightarrow> Inr (tpl_ActiveVersionID t))
          else
            (case fst (getLastBuild S s b) of
               Inl err \<Rightarrow> Inl err
             | Inr lb \<Rightarrow> Inr (wb_TemplateVersionID lb)))"
    by (rule fst_getTemplateVersionID)
next
  fix wb pjo eo
  assume "fst (Build E b c S s authFunc n) = (Some wb, pjo, eo)"
  from Build_build [OF this] obtain p s1 s2 lb where
    i: "InsertWorkspaceBuild S s1 p = (Inr wb, s2)"
    and w: "iwb_WorkspaceID p = ws_ID (workspace b)"
    and o: "lastBuild b = Some lb
      \<or> (\<exists>s3. GetLatestWorkspaceBuildByWorkspaceID S s3 (ws_ID (workspace b)) = Inr lb)"
    and tv: "case specific (version b) of
            Some v \<Rightarrow> iwb_TemplateVersionID p = v
          | None \<Rightarrow>
              if active (version b)
              then (\<exists>t. (template b = Some t
                          \<or> (\<exists>s3. GetTemplateByID S s3 (ws_TemplateID (workspace b)) = Inr t))
                        \<and> iwb_TemplateVersionID p = tpl_ActiveVersionID t)
              else iwb_TemplateVersionID p = wb_TemplateVersionID lb"
    by blast
  have "case specific (version b) of
          Some v \<Rightarrow> iwb_TemplateVersionID p = v
        | None \<Rightarrow>
            if active (version b) then
              (\<exists>t. (template b = Some t
                     \<or> (\<exists>s3. GetTemplateByID S s3 (ws_TemplateID (workspace b)) = Inr t))
                   \<and> iwb_TemplateVersionID p = tpl_ActiveVersionID t)
            else
              (\<exists>lb. (lastBuild b = Some lb
                      \<or> (\<exists>s3. GetLatestWorkspaceBuildByWorkspaceID S s3
                                 (ws_ID (workspace b)) = Inr lb))
                    \<and> iwb_TemplateVersionID p = wb_TemplateVersionID lb)"
    using tv o by (auto split: option.splits)
  with i w show "\<exists>p s1 s2.
      InsertWorkspaceBuild S s1 p = (Inr wb, s2)
      \<and> iwb_WorkspaceID p = ws_ID (workspace b)
      \<and> (case specific (version b) of
            Some v \<Rightarrow> iwb_TemplateVersionID p = v
          | None \<Rightarrow>
              if active (version b) then
                (\<exists>t. (template b = Some t
                       \<or> (\<exists>s3. GetTemplateByID S s3 (ws_TemplateID (workspace b)) = Inr t))
                     \<and> iwb_TemplateVersionID p = tpl_ActiveVersionID t)
              else
                (\<exists>lb. (lastBuild b = Some lb
                        \<or> (\<exists>s3. GetLatestWorkspaceBuildByWorkspaceID S s3
                                   (ws_ID (workspace b)) = Inr lb))
                      \<and> iwb_TemplateVersionID p = wb_TemplateVersionID lb))"
    by blast
qed

text \<open>The theorem on the in-memory store where the last build has version 22 and the
  template's active version is 20: the default selector gives 22, active gives 20, the
  specific id 20 gives 20.\<close>

theorem template_version_precedence_witness:
  "fst (Build memEnv builder1 0 memStore memDB_v22 None 0)
     = (Some (build1001\<lparr> wb_TemplateVersionID := 22 \<rparr>), Some job1002, None)
   \<and> fst (Build memEnv (ActiveVersion builder1) 0 memStore memDB_v22 None 0)
     = (Some (build1001\<lparr> wb_TemplateVersionID := 20 \<rparr>), Some job1002, None)
   \<and> fst (Build memEnv (VersionID 20 builder1) 0 memStore memDB_v22 None 0)
     = (Some (build1001\<lparr> wb_TemplateVersionID := 20 \<rparr>), Some job1002, None)
   \<and> fst (getTemplateVersionID memStore memDB_v22 builder1) = Inr 22
   \<and> fst (getTemplateVersionID memStore memDB_v22 (ActiveVersion builder1)) = Inr 20
   \<and> fst (getTemplateVersionID memStore memDB_v22 (VersionID 20 builder1)) = Inr 20
   \<and> (\<exists>p s1 s2.
        InsertWorkspaceBuild memStore s1 p
          = (Inr (build1001\<lparr> wb_TemplateVersionID := 20 \<rparr>), s2)
        \<and> iwb_TemplateVersionID p = 20)"
proof -
  have d: "fst (Build memEnv builder1 0 memStore memDB_v22 None 0)
     = (Some (build1001\<lparr> wb_TemplateVersionID := 22 \<rparr>), Some job1002, None)"
    by code_simp
  have a: "fst (Build memEnv (ActiveVersion builder1) 0 memStore memDB_v22 None 0)
     = (Some (build1001\<lparr> wb_TemplateVersionID := 20 \<rparr>), Some job1002, None)"
    by code_simp
  have x: "fst (Build memEnv (VersionID 20 builder1) 0 memStore memDB_v22 None 0)
     = (Some (build1001\<lparr> wb_TemplateVersionID := 20 \<rparr>), Some job1002, None)"
    by code_simp
  have xs: "specific (version (VersionID 20 builder1)) = Some 20"
    by code_simp
  have g: "fst (getTemplateVersionID memStore memDB_v22 builder1) = Inr 22"
    "fst (getTemplateVersionID memStore memDB_v22 (ActiveVersion builder1)) = Inr 20"
    "fst (getTemplateVersionID memStore memDB_v22 (VersionID 20 builder1)) = Inr 20"
    by code_simp+
  from template_version_precedence [where b = "VersionID 20 builder1" and E = memEnv
      and S = memStore and s = memDB_v22 and c = 0 and authFunc = None and n = 0,
      THEN conjunct2, rule_format, OF x] xs
  have "\<exists>p s1 s2.
        InsertWorkspaceBuild memStore s1 p
          = (Inr (build1001\<lparr> wb_TemplateVersionID := 20 \<rparr>), s2)
        \<and> iwb_TemplateVersionID p = 20"
    by auto
  then show ?thesis
    using d a x g by blast
qed

subsection \<open>C7: The import job of the template version\<close>

text \<open>
  C7 (as amended). The import job of the resolved template version gates the build. When
  the template version and its job resolve, \<^verbatim>\<open>checkTemplateJobStatus\<close> rejects a failed
  and a canceled import with status 400 and two different messages, and rejects a
  pending or running import as not ready with status 406 (not acceptable), not 400; it
  passes only a succeeded import, and an attempt that returns a build had a succeeded
  import.
\<close>

theorem template_job_status_gate:
  assumes tv: "fst (getTemplateVersion S s b) = Inr tv"
    and j: "fst (getTemplateVersionJob S s b) = Inr j"
  shows "fst (checkTemplateJobStatus S s E b) =
      (case ConvertProvisionerJobStatus E j of
         ProvisionerJobPending \<Rightarrow>
           Some (BuildError 406
             (Sprintf ''The provided template version is %s. Wait for it to complete importing!''
                [''pending''])
             (New []))
       | ProvisionerJobRunning \<Rightarrow>
           Some (BuildError 406
             (Sprintf ''The provided template version is %s. Wait for it to complete importing!''
                [''running''])
             (New []))
       | ProvisionerJobFailed \<Rightarrow>
           Some (BuildError 400
             (Sprintf ''The provided template version %q has failed to import: %q. You cannot build workspaces with it!''
                [tv_Name tv, job_Error_String j])
             (New []))
       | ProvisionerJobCanceled \<Rightarrow>
           Some (BuildError 400
             (Str ''The provided template version was canceled during import. You cannot build workspaces with it!'')
             (New []))
       | ProvisionerJobSucceeded \<Rightarrow> None)
    \<and> (\<forall>wb pj. fst (buildTx E S authFunc b s n) = Inr (wb, pj)
          \<longrightarrow> ConvertProvisionerJobStatus E j = ProvisionerJobSucceeded)"
proof -
  have c: "fst (checkTemplateJobStatus S s E b) =
      (case ConvertProvisionerJobStatus E j of
         ProvisionerJobPending \<Rightarrow>
           Some (BuildError 406
             (Sprintf ''The provided template version is %s. Wait for it to complete importing!''
                [''pending''])
             (New []))
       | ProvisionerJobRunning \<Rightarrow>
           Some (BuildError 406
             (Sprintf ''The provided template version is %s. Wait for it to complete importing!''
                [''running''])
             (New []))
       | ProvisionerJobFailed \<Rightarrow>
           Some (BuildError 400
             (Sprintf ''The provided template version %q has failed to import: %q. You cannot build workspaces with it!''
                [tv_Name tv, job_Error_String j])
             (New []))
       | ProvisionerJobCanceled \<Rightarrow>
           Some (BuildError 400
             (Str ''The provided template version was canceled during import. You cannot build workspaces with it!'')
             (New []))
       | ProvisionerJobSucceeded \<Rightarrow> None)"
    by (simp add: fst_checkTemplateJobStatus tv j StatusNotAcceptable_def StatusBadRequest_def
        split: ProvisionerJobStatus.splits)
  have "ConvertProvisionerJobStatus E j = ProvisionerJobSucceeded"
    if "fst (buildTx E S authFunc b s n) = Inr (wb, pj)" for wb pj
  proof -
    have "fst (buildTx_checks E S authFunc s b) = None"
      using that by (rule buildTx_Inr_checks)
    then have "fst (checkTemplateJobStatus S s E b) = None"
      by (simp add: fst_buildTx_checks split: option.splits)
    then show ?thesis
      unfolding c by (simp split: ProvisionerJobStatus.splits)
  qed
  with c show ?thesis
    by blast
qed

text \<open>The theorem at a canceled import, which is rejected with status 400, and at a
  succeeded import, where the attempt returns the build 1001 and the job 1002.\<close>

theorem template_job_status_gate_witness:
  "fst (getTemplateVersion memStore (memDB job30_canceled job31 [build40] 0) builder1) = Inr tv20
   \<and> fst (getTemplateVersionJob memStore (memDB job30_canceled job31 [build40] 0) builder1)
       = Inr job30_canceled
   \<and> fst (checkTemplateJobStatus memStore (memDB job30_canceled job31 [build40] 0) memEnv builder1)
       = Some (BuildError 400
           (Str ''The provided template version was canceled during import. You cannot build workspaces with it!'')
           (New []))
   \<and> fst (getTemplateVersion memStore (memDB job30 job31 [build40] 0) builder1) = Inr tv20
   \<and> fst (getTemplateVersionJob memStore (memDB job30 job31 [build40] 0) builder1) = Inr job30
   \<and> fst (buildTx memEnv memStore None builder1 (memDB job30 job31 [build40] 0) 0)
       = Inr (build1001, job1002)
   \<and> ConvertProvisionerJobStatus memEnv job30 = ProvisionerJobSucceeded"
proof -
  have tv: "fst (getTemplateVersion memStore (memDB job30_canceled job31 [build40] 0) builder1)
      = Inr tv20"
    by code_simp
  have j: "fst (getTemplateVersionJob memStore (memDB job30_canceled job31 [build40] 0) builder1)
      = Inr job30_canceled"
    by code_simp
  have st: "ConvertProvisionerJobStatus memEnv job30_canceled = ProvisionerJobCanceled"
    by code_simp
  have tv': "fst (getTemplateVersion memStore (memDB job30 job31 [build40] 0) builder1) = Inr tv20"
    by code_simp
  have j': "fst (getTemplateVersionJob memStore (memDB job30 job31 [build40] 0) builder1)
      = Inr job30"
    by code_simp
  have ok: "fst (buildTx memEnv memStore None builder1 (memDB job30 job31 [build40] 0) 0)
      = Inr (build1001, job1002)"
    by code_simp
  show ?thesis
    using tv j tv' j' ok template_job_status_gate [OF tv j, of memEnv None 0]
      template_job_status_gate [OF tv' j', of memEnv None 0]
    by (simp add: st)
qed

text \<open>C7 as stated fails: a pending import is rejected with status 406, which is not the
  bad-request status.\<close>

theorem pending_import_is_not_bad_request:
  "snd (snd (fst (Build memEnv builder1 0 memStore
      (memDB job30_pending job31 [build40] 0) None 0)))
    = Some (BuildError StatusNotAcceptable
        (Sprintf ''The provided template version is %s. Wait for it to complete importing!''
           [''pending''])
        (New []))
   \<and> StatusNotAcceptable \<noteq> StatusBadRequest"
  by code_simp

subsection \<open>C8: A custom log level\<close>

text \<open>
  C8 (as amended). When a custom log level is configured and the authorization function
  denies the update action on the workspace's template, the attempt fails in the
  authorization, before any write. When the transition is supported, the action on the
  workspace is allowed and no custom state is configured (or the update of the template's
  RBAC object is allowed), \<^verbatim>\<open>Build\<close> returns status 400 (bad request), not 403, with the
  message \<^verbatim>\<open>Workspace builds with a custom log level are restricted to template authors
  only.\<close>
\<close>

theorem custom_log_level_denied:
  assumes l: "logLevel b \<noteq> []"
    and t: "fst (getTemplate S s b) = Inr t"
    and d: "\<not> f ActionUpdate (ObjTemplate t)"
  shows "(\<exists>e b'. buildTx E S (Some f) (b\<lparr> ctx := c \<rparr>) s n = (Inl e, b', s, n))
    \<and> (\<forall>a. required_action (transition b) = Some a
          \<longrightarrow> f a (ObjWorkspace (workspace b))
          \<longrightarrow> ((explicit (state b) = None \<and> \<not> orphan (state b))
               \<or> f ActionUpdate (ObjTemplateRBACObject t))
          \<longrightarrow> (\<exists>b'. Build E b c S s (Some f) n
                = ((None, None,
                    Some (BuildError 400
                      (Str ''Workspace builds with a custom log level are restricted to template authors only.'')
                      (New []))),
                   b', RollbackTx S s s, n)))"
proof (intro conjI impI allI)
  have "fst (authorize S s E f b) \<noteq> None"
  proof (cases "required_action (transition b)")
    case None
    from authorize_unsupported [OF this, of S s E f] show ?thesis
      by auto
  next
    case (Some a)
    show ?thesis
      unfolding fst_authorize [OF Some] using l d by (simp add: t)
  qed
  then have "fst (buildTx_checks E S (Some f) s b) \<noteq> None"
    by (auto simp: fst_buildTx_checks authorize_opt_def split: option.splits)
  then obtain e where "fst (buildTx_checks E S (Some f) s (b\<lparr> ctx := c \<rparr>)) = Some e"
    by (auto simp: ctx_buildTx_checks)
  then have "\<exists>b'. buildTx E S (Some f) (b\<lparr> ctx := c \<rparr>) s n = (Inl e, b', s, n)"
    by (rule buildTx_checks_fail)
  then show "\<exists>e b'. buildTx E S (Some f) (b\<lparr> ctx := c \<rparr>) s n = (Inl e, b', s, n)"
    by blast
next
  fix a
  assume ra: "required_action (transition b) = Some a"
    and w: "f a (ObjWorkspace (workspace b))"
    and st: "(explicit (state b) = None \<and> \<not> orphan (state b))
      \<or> f ActionUpdate (ObjTemplateRBACObject t)"
  have "fst (authorize S s E f b)
      = Some (BuildError 400
          (Str ''Workspace builds with a custom log level are restricted to template authors only.'')
          (New []))"
    unfolding fst_authorize [OF ra] using w st l d by (auto simp: t StatusBadRequest_def)
  then have "fst (buildTx_checks E S (Some f) s b)
      = Some (BuildError 400
          (Str ''Workspace builds with a custom log level are restricted to template authors only.'')
          (New []))"
    by (simp add: fst_buildTx_checks authorize_opt_def)
  from Build_checks_fail [OF this, of c n]
  show "\<exists>b'. Build E b c S s (Some f) n
      = ((None, None,
          Some (BuildError 400
            (Str ''Workspace builds with a custom log level are restricted to template authors only.'')
            (New []))),
         b', RollbackTx S s s, n)"
    by simp
qed

text \<open>The theorem on the in-memory store, for a caller who may act on workspaces only.\<close>

theorem custom_log_level_denied_witness:
  "logLevel (LogLevel ''debug'' builder1) \<noteq> []
   \<and> fst (getTemplate memStore (memDB job30 job31 [build40] 0) (LogLevel ''debug'' builder1))
     = Inr tpl10
   \<and> \<not> workspaceOnly ActionUpdate (ObjTemplate tpl10)
   \<and> required_action (transition (LogLevel ''debug'' builder1)) = Some ActionUpdate
   \<and> workspaceOnly ActionUpdate (ObjWorkspace (workspace (LogLevel ''debug'' builder1)))
   \<and> explicit (state (LogLevel ''debug'' builder1)) = None
   \<and> \<not> orphan (state (LogLevel ''debug'' builder1))
   \<and> (\<exists>b'. Build memEnv (LogLevel ''debug'' builder1) 0 memStore
          (memDB job30 job31 [build40] 0) (Some workspaceOnly) 0
        = ((None, None,
            Some (BuildError 400
              (Str ''Workspace builds with a custom log level are restricted to template authors only.'')
              (New []))),
           b', memDB job30 job31 [build40] 0, 0))"
proof -
  have l: "logLevel (LogLevel ''debug'' builder1) \<noteq> []"
    by code_simp
  have t: "fst (getTemplate memStore (memDB job30 job31 [build40] 0)
      (LogLevel ''debug'' builder1)) = Inr tpl10"
    by code_simp
  have d: "\<not> workspaceOnly ActionUpdate (ObjTemplate tpl10)"
    by simp
  have a: "required_action (transition (LogLevel ''debug'' builder1)) = Some ActionUpdate"
    by code_simp
  have w: "workspaceOnly ActionUpdate (ObjWorkspace (workspace (LogLevel ''debug'' builder1)))"
    by simp
  have st: "explicit (state (LogLevel ''debug'' builder1)) = None"
    "\<not> orphan (state (LogLevel ''debug'' builder1))"
    by code_simp+
  have rb: "RollbackTx memStore (memDB job30 job31 [build40] 0)
      (memDB job30 job31 [build40] 0) = memDB job30 job31 [build40] 0"
    by code_simp
  from custom_log_level_denied [where f = workspaceOnly and b = "LogLevel ''debug'' builder1"
      and t = tpl10 and S = memStore and s = "memDB job30 job31 [build40] 0" and E = memEnv
      and c = 0 and n = 0, OF l t d, THEN conjunct2, rule_format, OF a w]
    st
  show ?thesis
    using l t d a w by (simp add: rb)
qed

text \<open>C8 as stated fails: the denial of a custom log level is classified as a bad request
  (400), not as forbidden (403).\<close>

theorem custom_log_level_denied_is_bad_request:
  "fst (Build memEnv (LogLevel ''debug'' builder1) 0 memStore (memDB job30 job31 [build40] 0)
      (Some workspaceOnly) 0)
     = (None, None,
        Some (BuildError StatusBadRequest
          (Str ''Workspace builds with a custom log level are restricted to template authors only.'')
          (New [])))
   \<and> \<not> workspaceOnly ActionUpdate (ObjTemplate tpl10)
   \<and> StatusBadRequest \<noteq> StatusForbidden"
  by code_simp

subsection \<open>C9: The cache across attempts\<close>

text \<open>
  C9 (as amended). The cache is not cleared between attempts. When the loop reaches the
  attempt \<open>k + 1\<close> after a serialization failure in the attempt \<open>k\<close>, the Builder it
  starts with is the Builder exactly as the rolled-back attempt left it: every cache field
  that held a value at the start of the attempt \<open>k\<close>, or at the call of \<^verbatim>\<open>Build\<close>, holds
  the same value at the start of the attempt \<open>k + 1\<close>, together with what the attempt
  \<open>k\<close> read.
\<close>

theorem cache_carried_into_retry:
  assumes k: "at_retry E S authFunc k (b\<lparr> ctx := c \<rparr>) None s n = Some (bk, ek, sk, nk)"
    and k': "at_retry E S authFunc (Suc k) (b\<lparr> ctx := c \<rparr>) None s n = Some (bk', ek', sk', nk')"
  shows "bk' = fst (snd (buildTx E S authFunc bk sk nk))
    \<and> cache_kept bk bk' \<and> cache_kept b bk'"
proof -
  have one: "at_retry E S authFunc (Suc 0) bk ek sk nk = Some (bk', ek', sk', nk')"
    using k' unfolding at_retry_snoc [of E S authFunc k] k by simp
  from at_retry_one [OF one] obtain e s1
    where tx: "buildTx E S authFunc bk sk nk = (Inl e, bk', s1, nk')"
    by blast
  have 1: "cache_kept bk bk'"
    using buildTx_evolves [OF tx] by (rule evolvesD(2))
  have "cache_kept (b\<lparr> ctx := c \<rparr>) bk'"
    using at_retry_evolves [OF k'] by (rule evolvesD(2))
  then have 2: "cache_kept b bk'"
    by (simp add: cache_kept_def)
  show ?thesis
    using tx 1 2 by simp
qed

text \<open>The theorem on the in-memory store with one serialization failure.\<close>

theorem cache_carried_into_retry_witness:
  "at_retry memEnv memStore None 0 (builder1\<lparr> ctx := 0 \<rparr>) None (memDB job30 job31 [build40] 1) 0
     = Some (builder1\<lparr> ctx := 0 \<rparr>, None, memDB job30 job31 [build40] 1, 0)
   \<and> at_retry memEnv memStore None (Suc 0) (builder1\<lparr> ctx := 0 \<rparr>) None
        (memDB job30 job31 [build40] 1) 0
     = Some (builder1_cached, Some conflict_error, memDB job30 job31 [build40] 0, 5)
   \<and> builder1_cached
     = fst (snd (buildTx memEnv memStore None (builder1\<lparr> ctx := 0 \<rparr>)
         (memDB job30 job31 [build40] 1) 0))
   \<and> cache_kept (builder1\<lparr> ctx := 0 \<rparr>) builder1_cached
   \<and> cache_kept builder1 builder1_cached"
proof -
  have a0: "at_retry memEnv memStore None 0 (builder1\<lparr> ctx := 0 \<rparr>) None
      (memDB job30 job31 [build40] 1) 0
     = Some (builder1\<lparr> ctx := 0 \<rparr>, None, memDB job30 job31 [build40] 1, 0)"
    by simp
  have a1: "at_retry memEnv memStore None (Suc 0) (builder1\<lparr> ctx := 0 \<rparr>) None
        (memDB job30 job31 [build40] 1) 0
     = Some (builder1_cached, Some conflict_error, memDB job30 job31 [build40] 0, 5)"
    by code_simp
  from cache_carried_into_retry [OF a0 a1]
  show ?thesis
    using a0 a1 by simp
qed

text \<open>C9 as stated fails: after a first attempt that ends in a serialization failure, the
  second attempt starts with the template, the template version, its job, the last build,
  its job and the legacy parameter values that the first attempt read.\<close>

theorem retry_starts_with_filled_cache:
  "at_retry memEnv memStore None (Suc 0) (builder1\<lparr> ctx := 0 \<rparr>) None
      (memDB job30 job31 [build40] 1) 0
     = Some (builder1_cached, Some conflict_error, memDB job30 job31 [build40] 0, 5)
   \<and> template builder1 = None \<and> template builder1_cached = Some tpl10
   \<and> templateVersion builder1 = None \<and> templateVersion builder1_cached = Some tv20
   \<and> templateVersionJob builder1 = None \<and> templateVersionJob builder1_cached = Some job30
   \<and> lastBuild builder1 = None \<and> lastBuild builder1_cached = Some build40
   \<and> lastBuildJob builder1 = None \<and> lastBuildJob builder1_cached = Some job31
   \<and> lastParameterValues builder1 = None \<and> lastParameterValues builder1_cached = Some []"
  by code_simp

subsection \<open>C10: A workspace without a build\<close>

text \<open>
  C10 (as amended). For a workspace without a prior build (the store reports not-found
  for its latest build) and a Builder that is not seeded with a last build or its job,
  every call to \<^verbatim>\<open>Build\<close> returns an error and no build, for all transitions and all
  version and state selectors (for a store in which rolling back a transaction that wrote
  nothing changes nothing). When the authorization and the two checks of the template
  version pass, the error is the internal-server error \<^verbatim>\<open>failed to fetch prior build\<close> of
  \<^verbatim>\<open>checkRunningBuild\<close>.
\<close>

theorem no_first_build:
  assumes lb: "lastBuild b = None" and lj: "lastBuildJob b = None"
    and nf: "GetLatestWorkspaceBuildByWorkspaceID S s (ws_ID (workspace b)) = Inl ErrNoRows"
    and rb: "RollbackTx S s s = s"
  shows "(\<exists>err. fst (Build E b c S s authFunc n) = (None, None, Some err))
    \<and> (fst (authorize_opt S s E authFunc b) = None
        \<longrightarrow> fst (checkTemplateVersionMatchesTemplate S s b) = None
        \<longrightarrow> fst (checkTemplateJobStatus S s E b) = None
        \<longrightarrow> fst (Build E b c S s authFunc n)
            = (None, None,
               Some (BuildError 500 (Str ''failed to fetch prior build'') (External ErrNoRows))))"
proof (intro conjI impI)
  show "\<exists>err. fst (Build E b c S s authFunc n) = (None, None, Some err)"
    unfolding Build_def using lb lj nf rb by (auto intro!: no_prior_build_loop)
next
  assume "fst (authorize_opt S s E authFunc b) = None"
    "fst (checkTemplateVersionMatchesTemplate S s b) = None"
    "fst (checkTemplateJobStatus S s E b) = None"
  then have "fst (buildTx_checks E S authFunc s b)
      = Some (BuildError 500 (Str ''failed to fetch prior build'') (External ErrNoRows))"
    by (simp add: fst_buildTx_checks fst_checkRunningBuild fst_getLastBuildJob fst_getLastBuild
        lb lj nf StatusInternalServerError_def)
  from Build_checks_fail [OF this, of c n]
  show "fst (Build E b c S s authFunc n)
      = (None, None,
         Some (BuildError 500 (Str ''failed to fetch prior build'') (External ErrNoRows)))"
    by auto
qed

text \<open>The theorem on the in-memory store without builds, with the version 20 given.\<close>

theorem no_first_build_witness:
  "lastBuild (VersionID 20 builder1) = None \<and> lastBuildJob (VersionID 20 builder1) = None
   \<and> GetLatestWorkspaceBuildByWorkspaceID memStore (memDB job30 job31 [] 0)
        (ws_ID (workspace (VersionID 20 builder1))) = Inl ErrNoRows
   \<and> RollbackTx memStore (memDB job30 job31 [] 0) (memDB job30 job31 [] 0)
        = memDB job30 job31 [] 0
   \<and> fst (authorize_opt memStore (memDB job30 job31 [] 0) memEnv (Some allowAll)
        (VersionID 20 builder1)) = None
   \<and> fst (checkTemplateVersionMatchesTemplate memStore (memDB job30 job31 [] 0)
        (VersionID 20 builder1)) = None
   \<and> fst (checkTemplateJobStatus memStore (memDB job30 job31 [] 0) memEnv
        (VersionID 20 builder1)) = None
   \<and> fst (Build memEnv (VersionID 20 builder1) 0 memStore (memDB job30 job31 [] 0)
        (Some allowAll) 0)
     = (None, None,
        Some (BuildError 500 (Str ''failed to fetch prior build'') (External ErrNoRows)))"
proof -
  have h: "lastBuild (VersionID 20 builder1) = None" "lastBuildJob (VersionID 20 builder1) = None"
    "GetLatestWorkspaceBuildByWorkspaceID memStore (memDB job30 job31 [] 0)
        (ws_ID (workspace (VersionID 20 builder1))) = Inl ErrNoRows"
    "RollbackTx memStore (memDB job30 job31 [] 0) (memDB job30 job31 [] 0)
        = memDB job30 job31 [] 0"
    by code_simp+
  have c: "fst (authorize_opt memStore (memDB job30 job31 [] 0) memEnv (Some allowAll)
        (VersionID 20 builder1)) = None"
    "fst (checkTemplateVersionMatchesTemplate memStore (memDB job30 job31 [] 0)
        (VersionID 20 builder1)) = None"
    "fst (checkTemplateJobStatus memStore (memDB job30 job31 [] 0) memEnv
        (VersionID 20 builder1)) = None"
    by code_simp+
  from no_first_build [OF h, of memEnv 0 "Some allowAll" 0, THEN conjunct2, rule_format, OF c]
  show ?thesis
    using h c by simp
qed

text \<open>C10 as stated fails: without a prior build and with a version selector that names
  a version of no template, \<^verbatim>\<open>Build\<close> fails with a bad request from
  \<^verbatim>\<open>checkTemplateVersionMatchesTemplate\<close>, not with an internal-server error from the
  prior-build check.\<close>

theorem no_prior_build_bad_request:
  "fst (Build memEnv (VersionID 21 builder1) 0 memStore (memDB job30 job31 [] 0) None 0)
     = (None, None,
        Some (BuildError StatusBadRequest (Str ''template version doesn't match template'')
                (New ''templateVersion.TemplateID = %s, template.ID = %s'')))
   \<and> StatusBadRequest \<noteq> StatusInternalServerError"
  by code_simp

end
